theory Spec2Isabelle
  imports Complex_Main
begin

section \<open>Python values used by the query functions of \<open>rocketmad/models.py\<close>\<close>

text \<open>
  The exceptions the modelled code can raise. A function that can raise returns
  \<open>error + 'a\<close>, with \<open>Inl\<close> for the exception.
\<close>

datatype error = IndexError | ValueError | OverflowError

definition ebind :: "error + 'a \<Rightarrow> ('a \<Rightarrow> error + 'b) \<Rightarrow> error + 'b" where
  "ebind m f = (case m of Inl e \<Rightarrow> Inl e | Inr x \<Rightarrow> f x)"

subsection \<open>Naive datetimes and timedeltas\<close>

text \<open>
  A \<open>timedelta\<close> is its total number of microseconds. A naive \<open>datetime\<close> is the record
  of its fields; the date is kept as its proleptic Gregorian ordinal
  (\<open>date.toordinal()\<close>, 1 for 0001-01-01 and 3652059 for 9999-12-31), since the code
  never looks at year, month or day on their own.
\<close>

type_synonym timedelta = int

definition td_hours :: "int \<Rightarrow> timedelta" where
  "td_hours n = n * 3600000000"

definition td_minutes :: "int \<Rightarrow> timedelta" where
  "td_minutes n = n * 60000000"

record datetime =
  dt_ordinal :: int
  dt_hour :: int
  dt_minute :: int
  dt_second :: int
  dt_microsecond :: int

definition MAXORDINAL :: int where
  "MAXORDINAL = 3652059"

definition dt_valid :: "datetime \<Rightarrow> bool" where
  "dt_valid d \<longleftrightarrow>
     1 \<le> dt_ordinal d \<and> dt_ordinal d \<le> MAXORDINAL \<and>
     0 \<le> dt_hour d \<and> dt_hour d < 24 \<and>
     0 \<le> dt_minute d \<and> dt_minute d < 60 \<and>
     0 \<le> dt_second d \<and> dt_second d < 60 \<and>
     0 \<le> dt_microsecond d \<and> dt_microsecond d < 1000000"

text \<open>Comparison of datetimes is the lexicographic comparison of their field tuples.\<close>

definition dt_less :: "datetime \<Rightarrow> datetime \<Rightarrow> bool" where
  "dt_less a b \<longleftrightarrow>
     dt_ordinal a < dt_ordinal b \<or> (dt_ordinal a = dt_ordinal b \<and>
      (dt_hour a < dt_hour b \<or> (dt_hour a = dt_hour b \<and>
       (dt_minute a < dt_minute b \<or> (dt_minute a = dt_minute b \<and>
        (dt_second a < dt_second b \<or> (dt_second a = dt_second b \<and>
          dt_microsecond a < dt_microsecond b)))))))"

definition dt_le :: "datetime \<Rightarrow> datetime \<Rightarrow> bool" where
  "dt_le a b \<longleftrightarrow> dt_less a b \<or> a = b"

text \<open>
  \<open>datetime + timedelta\<close> as \<open>datetime.__add__\<close> computes it: the datetime becomes a
  count of microseconds from ordinal 0, the delta is added, and the sum is split into
  fields again; a date outside \<open>1..MAXORDINAL\<close> raises \<open>OverflowError\<close>.
  \<open>datetime - timedelta\<close> adds the negated delta.
\<close>

definition dt_to_us :: "datetime \<Rightarrow> int" where
  "dt_to_us d =
     (((dt_ordinal d * 24 + dt_hour d) * 60 + dt_minute d) * 60 + dt_second d) * 1000000
       + dt_microsecond d"

definition dt_of_us :: "int \<Rightarrow> datetime" where
  "dt_of_us n =
     \<lparr> dt_ordinal = n div 86400000000,
       dt_hour = (n div 3600000000) mod 24,
       dt_minute = (n div 60000000) mod 60,
       dt_second = (n div 1000000) mod 60,
       dt_microsecond = n mod 1000000 \<rparr>"

definition dt_add :: "datetime \<Rightarrow> timedelta \<Rightarrow> error + datetime" where
  "dt_add d td =
     (let r = dt_of_us (dt_to_us d + td)
      in if 0 < dt_ordinal r \<and> dt_ordinal r \<le> MAXORDINAL then Inr r else Inl OverflowError)"

definition dt_sub :: "datetime \<Rightarrow> timedelta \<Rightarrow> error + datetime" where
  "dt_sub d td = dt_add d (- td)"

text \<open>
  \<open>datetime.replace(minute=m, second=s, microsecond=us)\<close>: the three fields are
  overwritten, and a value out of its range raises \<open>ValueError\<close>.
\<close>

definition dt_replace :: "datetime \<Rightarrow> int \<Rightarrow> int \<Rightarrow> int \<Rightarrow> error + datetime" where
  "dt_replace d m s us =
     (if 0 \<le> m \<and> m \<le> 59 \<and> 0 \<le> s \<and> s \<le> 59 \<and> 0 \<le> us \<and> us \<le> 999999
      then Inr (d\<lparr>dt_minute := m, dt_second := s, dt_microsecond := us\<rparr>)
      else Inl ValueError)"

text \<open>
  \<open>datetime.utcfromtimestamp(timestamp / 1000)\<close> for an integer count of
  milliseconds: the instant that many milliseconds after 1970-01-01 (ordinal 719163).
  The division is modelled exactly; the binary floating-point quotient agrees with it
  after rounding to microseconds for the timestamps of this and the next century, and
  can be off by a fraction of a millisecond far beyond. A date past year 9999 raises
  (\<open>ValueError\<close>; for a timestamp beyond the platform's \<open>time_t\<close> Python raises
  \<open>OverflowError\<close> instead, which the model does not distinguish).
\<close>

definition epoch :: datetime where
  "epoch = \<lparr> dt_ordinal = 719163, dt_hour = 0, dt_minute = 0, dt_second = 0,
             dt_microsecond = 0 \<rparr>"

definition utcfromtimestamp_ms :: "int \<Rightarrow> error + datetime" where
  "utcfromtimestamp_ms timestamp =
     (case dt_add epoch (timestamp * 1000) of
        Inl e \<Rightarrow> Inl ValueError
      | Inr d \<Rightarrow> Inr d)"

subsection \<open>Truthiness and SQL comparisons\<close>

text \<open>
  A box coordinate is \<open>None\<close> or a number; coordinates and the stored latitudes and
  longitudes (SQL \<open>DOUBLE\<close>) are modelled as real numbers. Python's \<open>and\<close> chain
  \<open>swLat and swLng and neLat and neLng\<close> is truthy when no coordinate is \<open>None\<close> and
  none is zero.
\<close>

definition truthy :: "real option \<Rightarrow> bool" where
  "truthy c = (case c of None \<Rightarrow> False | Some x \<Rightarrow> x \<noteq> 0)"

definition box_given :: "real option \<Rightarrow> real option \<Rightarrow> real option \<Rightarrow> real option \<Rightarrow> bool" where
  "box_given swLat swLng neLat neLng \<longleftrightarrow>
     truthy swLat \<and> truthy swLng \<and> truthy neLat \<and> truthy neLng"

text \<open>An optional list argument (\<open>eids\<close>, \<open>ids\<close>) is truthy when it is a non-empty list.\<close>

definition truthy_list :: "'a list option \<Rightarrow> bool" where
  "truthy_list xs = (case xs of None \<Rightarrow> False | Some ys \<Rightarrow> ys \<noteq> [])"

text \<open>
  The four range comparisons every geographic branch repeats. They are only reached
  with coordinates that passed the truthiness test, hence \<open>the\<close> is applied to
  \<open>Some\<close> values only.
\<close>

definition in_box ::
  "real \<Rightarrow> real \<Rightarrow> real option \<Rightarrow> real option \<Rightarrow> real option \<Rightarrow> real option \<Rightarrow> bool" where
  "in_box lat lng swLat swLng neLat neLng \<longleftrightarrow>
     lat \<ge> the swLat \<and> lng \<ge> the swLng \<and> lat \<le> the neLat \<and> lng \<le> the neLng"

text \<open>
  A comparison of a nullable \<open>DateTime\<close> column with a bound value is \<open>NULL\<close> on a
  \<open>NULL\<close> column, and a row whose \<open>WHERE\<close> clause is \<open>NULL\<close> is not selected. The
  comparisons below occur under \<open>AND\<close> and \<open>OR\<close> only, never under \<open>NOT\<close>, so
  \<open>NULL\<close> can be read as false.
\<close>

definition sql_gt :: "datetime option \<Rightarrow> datetime \<Rightarrow> bool" where
  "sql_gt col v = (case col of None \<Rightarrow> False | Some c \<Rightarrow> dt_less v c)"

definition sql_ge :: "datetime option \<Rightarrow> datetime \<Rightarrow> bool" where
  "sql_ge col v = (case col of None \<Rightarrow> False | Some c \<Rightarrow> dt_le v c)"

section \<open>Sightings: \<open>Pokemon.get_active\<close>\<close>

text \<open>
  The columns of \<open>Pokemon\<close> that the query tests or that identify a row; the other
  selected columns (individual values, moves, cp, weight, height, gender, form, costume,
  weather boost) are copied to the result unchanged and are left out.
\<close>

record pokemon =
  encounter_id :: nat
  spawnpoint_id :: nat
  pokemon_id :: int
  pk_latitude :: real
  pk_longitude :: real
  disappear_time :: datetime
  pk_last_modified :: "datetime option"

record trsspawn =
  spawnpoint :: string
  ts_latitude :: real
  ts_longitude :: real
  spawndef :: int
  earliest_unseen :: int
  last_scanned :: "datetime option"
  first_detection :: datetime
  last_non_scanned :: "datetime option"
  calc_endminsec :: "string option"
  eventid :: int

text \<open>
  A result row of \<open>get_active\<close>: the sighting and, when \<open>verified_despawn_time\<close> is
  set, the column \<open>verified_disappear_time\<close> (\<open>None\<close>: column not selected;
  \<open>Some None\<close>: selected and \<open>NULL\<close>).
\<close>

record active_row =
  ar_pokemon :: pokemon
  verified_disappear_time :: "string option option"

text \<open>
  The left outer join of the sightings with \<open>TrsSpawn\<close>. The \<open>ON\<close> clause compares
  a \<open>BIGINT\<close> with a string column; what the datastore takes for equal there is the
  parameter \<open>spawn_eq\<close>.
\<close>

definition outerjoin_trsspawn ::
  "(nat \<Rightarrow> string \<Rightarrow> bool) \<Rightarrow> trsspawn list \<Rightarrow> pokemon \<Rightarrow> active_row list" where
  "outerjoin_trsspawn spawn_eq spawns p =
     (case filter (\<lambda>t. spawn_eq (spawnpoint_id p) (spawnpoint t)) spawns of
        [] \<Rightarrow> [\<lparr> ar_pokemon = p, verified_disappear_time = Some None \<rparr>]
      | ms \<Rightarrow> map (\<lambda>t. \<lparr> ar_pokemon = p, verified_disappear_time = Some (calc_endminsec t) \<rparr>) ms)"

definition select_columns ::
  "bool \<Rightarrow> (nat \<Rightarrow> string \<Rightarrow> bool) \<Rightarrow> trsspawn list \<Rightarrow> pokemon list \<Rightarrow> active_row list" where
  "select_columns verified_despawn_time spawn_eq spawns pokemons =
     (if verified_despawn_time
      then concat (map (outerjoin_trsspawn spawn_eq spawns) pokemons)
      else map (\<lambda>p. \<lparr> ar_pokemon = p, verified_disappear_time = None \<rparr>) pokemons)"

text \<open>
  \<open>get_active\<close>. The first four arguments are the environment: the value
  \<open>datetime.utcnow()\<close> returns (each path reads the clock once), the datastore's
  equality for the join, and the two tables. The others are the function's own, in the
  source's order.
\<close>

definition kind_filter ::
  "int list option \<Rightarrow> int list option \<Rightarrow> active_row list \<Rightarrow> active_row list" where
  "kind_filter eids ids query =
     (if truthy_list eids
      then filter (\<lambda>r. pokemon_id (ar_pokemon r) \<notin> set (the eids)) query
      else if truthy_list ids
      then filter (\<lambda>r. pokemon_id (ar_pokemon r) \<in> set (the ids)) query
      else query)"

definition get_active ::
  "datetime \<Rightarrow> (nat \<Rightarrow> string \<Rightarrow> bool) \<Rightarrow> trsspawn list \<Rightarrow> pokemon list \<Rightarrow>
   real option \<Rightarrow> real option \<Rightarrow> real option \<Rightarrow> real option \<Rightarrow>
   real option \<Rightarrow> real option \<Rightarrow> real option \<Rightarrow> real option \<Rightarrow>
   int \<Rightarrow> int list option \<Rightarrow> int list option \<Rightarrow> bool \<Rightarrow> error + active_row list" where
  "get_active utcnow spawn_eq spawns pokemons
       swLat swLng neLat neLng oSwLat oSwLng oNeLat oNeLng timestamp eids ids
       verified_despawn_time =
     (let query = select_columns verified_despawn_time spawn_eq spawns pokemons;
          query = kind_filter eids ids query
      in
        if \<not> box_given swLat swLng neLat neLng
        then Inr (filter (\<lambda>r. dt_less utcnow (disappear_time (ar_pokemon r))) query)
        else if timestamp > 0
        then ebind (utcfromtimestamp_ms timestamp) (\<lambda>since.
               Inr (filter (\<lambda>r.
                      sql_gt (pk_last_modified (ar_pokemon r)) since \<and>
                      dt_less utcnow (disappear_time (ar_pokemon r)) \<and>
                      in_box (pk_latitude (ar_pokemon r)) (pk_longitude (ar_pokemon r))
                             swLat swLng neLat neLng) query))
        else if box_given oSwLat oSwLng oNeLat oNeLng
        then Inr (filter (\<lambda>r.
                    dt_less utcnow (disappear_time (ar_pokemon r)) \<and>
                    in_box (pk_latitude (ar_pokemon r)) (pk_longitude (ar_pokemon r))
                           swLat swLng neLat neLng \<and>
                    \<not> in_box (pk_latitude (ar_pokemon r)) (pk_longitude (ar_pokemon r))
                             oSwLat oSwLng oNeLat oNeLng) query)
        else Inr (filter (\<lambda>r.
                    dt_less utcnow (disappear_time (ar_pokemon r)) \<and>
                    in_box (pk_latitude (ar_pokemon r)) (pk_longitude (ar_pokemon r))
                           swLat swLng neLat neLng) query))"

section \<open>Weather cells: \<open>Weather.get_weather\<close>\<close>

record weather =
  s2_cell_id :: string
  w_latitude :: real
  w_longitude :: real
  gameplay_weather :: "int option"
  severity :: "int option"
  world_time :: "int option"
  w_last_updated :: "datetime option"

text \<open>
  Python floats are binary doubles: the literals \<open>0.15\<close> and \<open>0.4\<close> denote the
  doubles nearest to them, and a subtraction or addition of doubles returns the exact
  result rounded to a double. \<open>to_double\<close>, the first argument of the definitions
  below, is that rounding of a real number to a double; \<open>double_round\<close> further down
  defines it. \<open>float(swLat)\<close> is the double nearest to the coordinate, which is the
  coordinate itself when it is a double already. The stored positions are doubles.
\<close>

definition lat_delta :: "(real \<Rightarrow> real) \<Rightarrow> real" where
  "lat_delta to_double = to_double 0.15"

definition lng_delta :: "(real \<Rightarrow> real) \<Rightarrow> real" where
  "lng_delta to_double = to_double 0.4"

text \<open>
  The comparisons of the weather query, with the bounds \<open>float(swLat) - lat_delta\<close>,
  \<open>float(swLng) - lng_delta\<close>, \<open>float(neLat) + lat_delta\<close> and
  \<open>float(neLng) + lng_delta\<close>.
\<close>

definition in_box_delta ::
  "(real \<Rightarrow> real) \<Rightarrow> real \<Rightarrow> real \<Rightarrow>
   real option \<Rightarrow> real option \<Rightarrow> real option \<Rightarrow> real option \<Rightarrow> bool" where
  "in_box_delta to_double lat lng swLat swLng neLat neLng \<longleftrightarrow>
     lat \<ge> to_double (to_double (the swLat) - lat_delta to_double) \<and>
     lng \<ge> to_double (to_double (the swLng) - lng_delta to_double) \<and>
     lat \<le> to_double (to_double (the neLat) + lat_delta to_double) \<and>
     lng \<le> to_double (to_double (the neLng) + lng_delta to_double)"

definition get_weather ::
  "(real \<Rightarrow> real) \<Rightarrow> weather list \<Rightarrow>
   real option \<Rightarrow> real option \<Rightarrow> real option \<Rightarrow> real option \<Rightarrow>
   real option \<Rightarrow> real option \<Rightarrow> real option \<Rightarrow> real option \<Rightarrow>
   int \<Rightarrow> error + weather list" where
  "get_weather to_double weathers swLat swLng neLat neLng oSwLat oSwLng oNeLat oNeLng
       timestamp =
     (if \<not> box_given swLat swLng neLat neLng
      then Inr weathers
      else if timestamp > 0
      then ebind (utcfromtimestamp_ms timestamp) (\<lambda>since.
             Inr (filter (\<lambda>w.
                    sql_gt (w_last_updated w) since \<and>
                    in_box_delta to_double (w_latitude w) (w_longitude w)
                      swLat swLng neLat neLng)
                  weathers))
      else if box_given oSwLat oSwLng oNeLat oNeLng
      then Inr (filter (\<lambda>w.
                  in_box_delta to_double (w_latitude w) (w_longitude w)
                    swLat swLng neLat neLng \<and>
                  \<not> in_box_delta to_double (w_latitude w) (w_longitude w)
                      oSwLat oSwLng oNeLat oNeLng)
                weathers)
      else Inr (filter (\<lambda>w.
                  in_box_delta to_double (w_latitude w) (w_longitude w)
                    swLat swLng neLat neLng)
                weathers))"

section \<open>Scan cells: \<open>ScannedLocation.get_recent\<close>\<close>

record scannedlocation =
  cellid :: nat
  sl_latitude :: real
  sl_longitude :: real
  sl_last_modified :: "datetime option"

text \<open>
  \<open>active_time\<close> is computed before the branches, from the one clock read of the
  function.
\<close>

definition get_recent ::
  "datetime \<Rightarrow> scannedlocation list \<Rightarrow>
   real option \<Rightarrow> real option \<Rightarrow> real option \<Rightarrow> real option \<Rightarrow>
   real option \<Rightarrow> real option \<Rightarrow> real option \<Rightarrow> real option \<Rightarrow>
   int \<Rightarrow> error + scannedlocation list" where
  "get_recent utcnow locations swLat swLng neLat neLng oSwLat oSwLng oNeLat oNeLng
       timestamp =
     ebind (dt_sub utcnow (td_minutes 15)) (\<lambda>active_time.
       if \<not> box_given swLat swLng neLat neLng
       then Inr (filter (\<lambda>l. sql_ge (sl_last_modified l) active_time) locations)
       else if timestamp > 0
       then ebind (utcfromtimestamp_ms timestamp) (\<lambda>since.
              Inr (filter (\<lambda>l.
                     sql_ge (sl_last_modified l) since \<and>
                     in_box (sl_latitude l) (sl_longitude l) swLat swLng neLat neLng)
                   locations))
       else if box_given oSwLat oSwLng oNeLat oNeLng
       then Inr (filter (\<lambda>l.
                   sql_ge (sl_last_modified l) active_time \<and>
                   in_box (sl_latitude l) (sl_longitude l) swLat swLng neLat neLng \<and>
                   \<not> in_box (sl_latitude l) (sl_longitude l) oSwLat oSwLng oNeLat oNeLng)
                 locations)
       else Inr (filter (\<lambda>l.
                   sql_ge (sl_last_modified l) active_time \<and>
                   in_box (sl_latitude l) (sl_longitude l) swLat swLng neLat neLng)
                 locations))"

section \<open>Strings: \<open>str.split\<close>, list indexing and \<open>int\<close>\<close>

text \<open>
  A string is a list of characters with code points below 256. \<open>s.split(sep)\<close> for a
  one-character separator always returns at least one piece.
\<close>

fun split_on :: "char \<Rightarrow> string \<Rightarrow> string list" where
  "split_on sep [] = [[]]"
| "split_on sep (c # cs) =
     (if c = sep then [] # split_on sep cs
      else (case split_on sep cs of
              [] \<Rightarrow> [[c]]
            | piece # pieces \<Rightarrow> (c # piece) # pieces))"

definition py_index :: "'a list \<Rightarrow> nat \<Rightarrow> error + 'a" where
  "py_index xs i = (if i < length xs then Inr (xs ! i) else Inl IndexError)"

text \<open>
  \<open>int(s)\<close> on a string: whitespace around the number is dropped (tab, line feed,
  vertical tab, form feed, carriage return, space, and of the code points above 127
  the next-line and no-break-space characters), one sign may precede the digits, and
  single underscores may separate digits. Anything else raises \<open>ValueError\<close>.
\<close>

definition is_space :: "char \<Rightarrow> bool" where
  "is_space c \<longleftrightarrow> (of_char c :: nat) \<in> {9, 10, 11, 12, 13, 32, 133, 160}"

definition is_digit :: "char \<Rightarrow> bool" where
  "is_digit c \<longleftrightarrow> 48 \<le> (of_char c :: nat) \<and> (of_char c :: nat) \<le> 57"

definition digit_val :: "char \<Rightarrow> int" where
  "digit_val c = int (of_char c) - 48"

fun parse_digits :: "int \<Rightarrow> bool \<Rightarrow> string \<Rightarrow> int option" where
  "parse_digits acc after_digit [] = (if after_digit then Some acc else None)"
| "parse_digits acc after_digit (c # cs) =
     (if is_digit c then parse_digits (10 * acc + digit_val c) True cs
      else if c = CHR ''_'' \<and> after_digit then parse_digits acc False cs
      else None)"

definition strip :: "string \<Rightarrow> string" where
  "strip s = rev (dropWhile is_space (rev (dropWhile is_space s)))"

definition py_int :: "string \<Rightarrow> error + int" where
  "py_int s =
     (case (case strip s of
              [] \<Rightarrow> None
            | c # cs \<Rightarrow>
                if c = CHR ''+'' then parse_digits 0 False cs
                else if c = CHR ''-'' then map_option uminus (parse_digits 0 False cs)
                else parse_digits 0 False (c # cs)) of
        None \<Rightarrow> Inl ValueError
      | Some v \<Rightarrow> Inr v)"

section \<open>Spawn points: \<open>TrsSpawn.get_spawnpoints\<close>\<close>

text \<open>
  The dictionary built for each spawn point. A key that may be missing is an option:
  \<open>end_time\<close> is \<open>None\<close> once the key is deleted and \<open>Some None\<close> while it is
  present with the value \<open>None\<close>; \<open>despawn_time\<close> and \<open>spawn_time\<close> are \<open>None\<close>
  until the keys are set.
\<close>

record spawnpoint_dict =
  sp_latitude :: real
  sp_longitude :: real
  sp_spawnpoint_id :: string
  sp_spawndef :: int
  sp_first_detection :: datetime
  sp_last_non_scanned :: "datetime option"
  sp_last_scanned :: "datetime option"
  end_time :: "string option option"
  despawn_time :: "datetime option"
  spawn_time :: "datetime option"

definition asdict :: "trsspawn \<Rightarrow> spawnpoint_dict" where
  "asdict t =
     \<lparr> sp_latitude = ts_latitude t, sp_longitude = ts_longitude t,
       sp_spawnpoint_id = spawnpoint t, sp_spawndef = spawndef t,
       sp_first_detection = first_detection t,
       sp_last_non_scanned = last_non_scanned t, sp_last_scanned = last_scanned t,
       end_time = Some (calc_endminsec t), despawn_time = None, spawn_time = None \<rparr>"

definition minus_offset :: "datetime option \<Rightarrow> timedelta \<Rightarrow> error + datetime option" where
  "minus_offset v utc_offset =
     (case v of
        None \<Rightarrow> Inr None
      | Some d \<Rightarrow> ebind (dt_sub d utc_offset) (\<lambda>d'. Inr (Some d')))"

text \<open>
  The local variable \<open>despawn_time\<close> before the offset is subtracted. \<open>today1\<close> and
  \<open>today2\<close> are the values of the two calls of \<open>datetime.today()\<close>, the first for the
  candidate and the second for the comparison.
\<close>

definition despawn_time_local :: "datetime \<Rightarrow> datetime \<Rightarrow> string \<Rightarrow> error + datetime" where
  "despawn_time_local today1 today2 e =
     (let end_time_split = split_on CHR '':'' e in
      ebind (py_index end_time_split 1) (\<lambda>s1.
      ebind (py_int s1) (\<lambda>end_time_seconds.
      ebind (py_index end_time_split 0) (\<lambda>s0.
      ebind (py_int s0) (\<lambda>end_time_minutes.
      ebind (dt_replace today1 end_time_minutes end_time_seconds 0) (\<lambda>despawn_time.
      if dt_le despawn_time today2
      then dt_add despawn_time (td_hours 1)
      else Inr despawn_time))))))"

text \<open>The body of the loop over the query's rows.\<close>

definition spawnpoint_entry ::
  "timedelta \<Rightarrow> datetime \<Rightarrow> datetime \<Rightarrow> trsspawn \<Rightarrow> error + spawnpoint_dict" where
  "spawnpoint_entry utc_offset today1 today2 row =
     (let sp = asdict row in
      ebind (minus_offset (sp_last_non_scanned sp) utc_offset) (\<lambda>lns.
      let sp = sp\<lparr>sp_last_non_scanned := lns\<rparr> in
      case calc_endminsec row of
        None \<Rightarrow> Inr sp
      | Some e \<Rightarrow>
          ebind (minus_offset (sp_last_scanned sp) utc_offset) (\<lambda>ls.
          let sp = sp\<lparr>sp_last_scanned := ls\<rparr> in
          ebind (despawn_time_local today1 today2 e) (\<lambda>local.
          ebind (dt_sub local utc_offset) (\<lambda>despawn.
          ebind (dt_sub despawn (if sp_spawndef sp = 15 then td_hours 1 else td_minutes 30))
            (\<lambda>spawn.
          Inr (sp\<lparr>end_time := None, despawn_time := Some despawn,
                   spawn_time := Some spawn\<rparr>)))))))"

text \<open>
  The loop. \<open>today\<close> is the sequence of values the successive calls of
  \<open>datetime.today()\<close> return and \<open>k\<close> the number of calls made so far; a row with an
  \<open>end_time\<close> makes two calls.
\<close>

fun spawnpoints_loop ::
  "timedelta \<Rightarrow> (nat \<Rightarrow> datetime) \<Rightarrow> nat \<Rightarrow> trsspawn list \<Rightarrow> error + spawnpoint_dict list" where
  "spawnpoints_loop utc_offset today k [] = Inr []"
| "spawnpoints_loop utc_offset today k (row # result) =
     ebind (spawnpoint_entry utc_offset (today k) (today (k + 1)) row) (\<lambda>sp.
     ebind (spawnpoints_loop utc_offset today
              (if calc_endminsec row = None then k else k + 2) result) (\<lambda>spawnpoints.
     Inr (sp # spawnpoints)))"

definition get_spawnpoints ::
  "timedelta \<Rightarrow> (nat \<Rightarrow> datetime) \<Rightarrow> trsspawn list \<Rightarrow>
   real option \<Rightarrow> real option \<Rightarrow> real option \<Rightarrow> real option \<Rightarrow>
   real option \<Rightarrow> real option \<Rightarrow> real option \<Rightarrow> real option \<Rightarrow>
   int \<Rightarrow> error + spawnpoint_dict list" where
  "get_spawnpoints utc_offset today spawns swLat swLng neLat neLng oSwLat oSwLng oNeLat oNeLng
       timestamp =
     ebind
       (if \<not> box_given swLat swLng neLat neLng
        then Inr spawns
        else if timestamp > 0
        then ebind (utcfromtimestamp_ms timestamp) (\<lambda>utc_time.
               Inr (filter (\<lambda>t.
                      (sql_gt (last_scanned t) utc_time \<or> sql_gt (last_non_scanned t) utc_time) \<and>
                      in_box (ts_latitude t) (ts_longitude t) swLat swLng neLat neLng) spawns))
        else if box_given oSwLat oSwLng oNeLat oNeLng
        then Inr (filter (\<lambda>t.
                    in_box (ts_latitude t) (ts_longitude t) swLat swLng neLat neLng \<and>
                    \<not> in_box (ts_latitude t) (ts_longitude t) oSwLat oSwLng oNeLat oNeLng)
                  spawns)
        else Inr (filter (\<lambda>t.
                    in_box (ts_latitude t) (ts_longitude t) swLat swLng neLat neLng) spawns))
       (\<lambda>result. spawnpoints_loop utc_offset today 0 result)"

section \<open>Landmarks: \<open>Pokestop.get_pokestops\<close>\<close>

text \<open>
  The ten columns the query loads from \<open>Pokestop\<close> (\<open>enabled\<close>, \<open>last_modified\<close> and
  \<open>incident_start\<close> are neither loaded nor tested), and the columns it loads from
  \<open>TrsQuest\<close>.
\<close>

record pokestop =
  pokestop_id :: string
  name :: "string option"
  image :: "string option"
  ps_latitude :: real
  ps_longitude :: real
  last_updated :: "datetime option"
  incident_grunt_type :: "int option"
  incident_expiration :: "datetime option"
  active_fort_modifier :: "int option"
  lure_expiration :: "datetime option"

record trsquest =
  GUID :: string
  quest_timestamp :: int
  quest_task :: "string option"
  quest_type :: int
  quest_stardust :: int
  quest_pokemon_id :: int
  quest_pokemon_form_id :: int
  quest_pokemon_costume_id :: int
  quest_reward_type :: int
  quest_item_id :: int
  quest_item_amount :: int

text \<open>
  The emitted record: the loaded columns of the stop (\<open>orm_to_dict\<close>) and the key
  \<open>quest\<close>, which holds the quest dictionary or \<open>None\<close>.
\<close>

record quest_dict =
  q_pokestop_id :: string
  q_timestamp :: int
  q_task :: "string option"
  q_type :: int
  q_stardust :: int
  q_pokemon_id :: int
  q_form_id :: int
  q_costume_id :: int
  q_reward_type :: int
  q_item_id :: int
  q_item_amount :: int

record pokestop_dict = pokestop +
  quest :: "quest_dict option"

definition quest_of :: "trsquest \<Rightarrow> quest_dict" where
  "quest_of quest_orm =
     \<lparr> q_pokestop_id = GUID quest_orm, q_timestamp = quest_timestamp quest_orm,
       q_task = quest_task quest_orm, q_type = quest_type quest_orm,
       q_stardust = quest_stardust quest_orm, q_pokemon_id = quest_pokemon_id quest_orm,
       q_form_id = quest_pokemon_form_id quest_orm,
       q_costume_id = quest_pokemon_costume_id quest_orm,
       q_reward_type = quest_reward_type quest_orm, q_item_id = quest_item_id quest_orm,
       q_item_amount = quest_item_amount quest_orm \<rparr>"

text \<open>
  The left outer join with \<open>TrsQuest\<close>. \<open>guid_eq\<close> is the datastore's equality of the
  two string columns under their collation, and \<open>today_timestamp\<close> the epoch seconds of
  local midnight.
\<close>

definition outerjoin_trsquest ::
  "(string \<Rightarrow> string \<Rightarrow> bool) \<Rightarrow> real \<Rightarrow> trsquest list \<Rightarrow> pokestop \<Rightarrow>
   (pokestop \<times> trsquest option) list" where
  "outerjoin_trsquest guid_eq today_timestamp quest_table p =
     (case filter (\<lambda>q. guid_eq (pokestop_id p) (GUID q) \<and>
                       real_of_int (quest_timestamp q) \<ge> today_timestamp) quest_table of
        [] \<Rightarrow> [(p, None)]
      | qs \<Rightarrow> map (\<lambda>q. (p, Some q)) qs)"

text \<open>
  The body of the loop over the result: the dictionary of one row. \<open>now\<close> is the value
  of the clock read after the query.
\<close>

definition pokestop_entry ::
  "datetime \<Rightarrow> bool \<Rightarrow> bool \<Rightarrow> pokestop \<Rightarrow> trsquest option \<Rightarrow> pokestop_dict" where
  "pokestop_entry now invasions lures pokestop_orm quest_orm =
     (let pokestop = pokestop.extend pokestop_orm (pokestop_dict.fields None);
          pokestop = pokestop\<lparr>quest := map_option quest_of quest_orm\<rparr>;
          pokestop =
            (case incident_expiration pokestop of
               None \<Rightarrow> pokestop
             | Some expiration \<Rightarrow>
                 if dt_less expiration now \<or> \<not> invasions
                 then pokestop\<lparr>incident_grunt_type := None, incident_expiration := None\<rparr>
                 else pokestop);
          pokestop =
            (case lure_expiration pokestop of
               None \<Rightarrow> pokestop
             | Some expiration \<Rightarrow>
                 if dt_less expiration now \<or> \<not> lures
                 then pokestop\<lparr>active_fort_modifier := None, lure_expiration := None\<rparr>
                 else pokestop)
      in pokestop)"

text \<open>
  \<open>get_pokestops\<close>. The environment: the clock reads of the invasion term, of the lure
  term and of the projection, the join's equality, the epoch seconds of local midnight,
  and the two tables. An \<open>or_\<close> of no terms adds no condition to the query. The result
  is the dictionary from \<open>pokestop_id\<close> to the emitted record; a later row with the same
  id replaces an earlier one.
\<close>

definition get_pokestops ::
  "datetime \<Rightarrow> datetime \<Rightarrow> datetime \<Rightarrow> (string \<Rightarrow> string \<Rightarrow> bool) \<Rightarrow> real \<Rightarrow>
   trsquest list \<Rightarrow> pokestop list \<Rightarrow>
   real option \<Rightarrow> real option \<Rightarrow> real option \<Rightarrow> real option \<Rightarrow>
   real option \<Rightarrow> real option \<Rightarrow> real option \<Rightarrow> real option \<Rightarrow>
   int \<Rightarrow> bool \<Rightarrow> bool \<Rightarrow> bool \<Rightarrow> bool \<Rightarrow> error + (string \<rightharpoonup> pokestop_dict)" where
  "get_pokestops utcnow_invasions utcnow_lures now guid_eq today_timestamp quest_table pokestops
       swLat swLng neLat neLng oSwLat oSwLng oNeLat oNeLng timestamp
       eventless_stops quests invasions lures =
     (let query =
            (if quests
             then concat (map (outerjoin_trsquest guid_eq today_timestamp quest_table) pokestops)
             else map (\<lambda>p. (p, None)) pokestops);
          terms =
            (if quests then [\<lambda>(p, q). q \<noteq> None] else []) @
            (if invasions then [\<lambda>(p, q). sql_gt (incident_expiration p) utcnow_invasions] else []) @
            (if lures then [\<lambda>(p, q). sql_gt (lure_expiration p) utcnow_lures] else []);
          query =
            (if \<not> eventless_stops
             then (case terms of [] \<Rightarrow> query | _ \<Rightarrow> filter (\<lambda>r. list_ex (\<lambda>t. t r) terms) query)
             else query)
      in
        ebind
          (if \<not> box_given swLat swLng neLat neLng
           then Inr query
           else if timestamp > 0
           then ebind (utcfromtimestamp_ms timestamp) (\<lambda>since.
                  Inr (filter (\<lambda>(p, q).
                         sql_gt (last_updated p) since \<and>
                         in_box (ps_latitude p) (ps_longitude p) swLat swLng neLat neLng) query))
           else if box_given oSwLat oSwLng oNeLat oNeLng
           then Inr (filter (\<lambda>(p, q).
                       in_box (ps_latitude p) (ps_longitude p) swLat swLng neLat neLng \<and>
                       \<not> in_box (ps_latitude p) (ps_longitude p) oSwLat oSwLng oNeLat oNeLng)
                     query)
           else Inr (filter (\<lambda>(p, q).
                       in_box (ps_latitude p) (ps_longitude p) swLat swLng neLat neLng) query))
          (\<lambda>result.
             Inr (foldl (\<lambda>pokestops (pokestop_orm, quest_orm).
                           pokestops(pokestop_id pokestop_orm \<mapsto>
                             pokestop_entry now invasions lures pokestop_orm quest_orm))
                    Map.empty result)))"

section \<open>Binary doubles\<close>









section \<open>The sync modes as the specification words them\<close>

text \<open>
  The four modes of the viewport filter and their selection in priority order, written
  from the specification's wording; the theorems compare the query functions above with
  them.
\<close>

datatype sync_mode = NoBox | DeltaByTimestamp | Panned | Fallback

definition select_mode :: "bool \<Rightarrow> bool \<Rightarrow> bool \<Rightarrow> sync_mode" where
  "select_mode box_present previous_present since_positive =
     (if \<not> box_present then NoBox
      else if since_positive then DeltaByTimestamp
      else if previous_present then Panned
      else Fallback)"

definition live :: "datetime \<Rightarrow> active_row \<Rightarrow> bool" where
  "live now r \<longleftrightarrow> dt_less now (disappear_time (ar_pokemon r))"

definition inside ::
  "real option \<Rightarrow> real option \<Rightarrow> real option \<Rightarrow> real option \<Rightarrow> active_row \<Rightarrow> bool" where
  "inside s w n e r \<longleftrightarrow> in_box (pk_latitude (ar_pokemon r)) (pk_longitude (ar_pokemon r)) s w n e"

definition sightings_in_mode ::
  "sync_mode \<Rightarrow> datetime \<Rightarrow>
   real option \<Rightarrow> real option \<Rightarrow> real option \<Rightarrow> real option \<Rightarrow>
   real option \<Rightarrow> real option \<Rightarrow> real option \<Rightarrow> real option \<Rightarrow>
   int \<Rightarrow> active_row list \<Rightarrow> error + active_row list" where
  "sightings_in_mode mode now s w n e os ow on oe timestamp rows =
     (case mode of
        NoBox \<Rightarrow> Inr (filter (live now) rows)
      | DeltaByTimestamp \<Rightarrow>
          ebind (utcfromtimestamp_ms timestamp) (\<lambda>since.
            Inr (filter (\<lambda>r. inside s w n e r \<and> sql_gt (pk_last_modified (ar_pokemon r)) since
                              \<and> live now r) rows))
      | Panned \<Rightarrow>
          Inr (filter (\<lambda>r. inside s w n e r \<and> live now r \<and> \<not> inside os ow on oe r) rows)
      | Fallback \<Rightarrow>
          Inr (filter (\<lambda>r. inside s w n e r \<and> live now r) rows))"

section \<open>Predicates of the statements\<close>

text \<open>
  The fragment \<open>"MM:SS"\<close> for minute \<open>m\<close> and second \<open>s\<close>: two decimal digits, a
  colon, two decimal digits.
\<close>

definition digit_char :: "nat \<Rightarrow> char" where
  "digit_char k = char_of (48 + k)"

definition mmss :: "nat \<Rightarrow> nat \<Rightarrow> string" where
  "mmss m s = [digit_char (m div 10), digit_char (m mod 10), CHR '':'',
               digit_char (s div 10), digit_char (s mod 10)]"

text \<open>The fields of the time of day are in their ranges.\<close>

definition time_ok :: "datetime \<Rightarrow> bool" where
  "time_ok d \<longleftrightarrow>
     0 \<le> dt_hour d \<and> dt_hour d < 24 \<and>
     0 \<le> dt_minute d \<and> dt_minute d < 60 \<and>
     0 \<le> dt_second d \<and> dt_second d < 60 \<and>
     0 \<le> dt_microsecond d \<and> dt_microsecond d < 1000000"

text \<open>A coordinate that fails the truthiness test: \<open>None\<close> or zero.\<close>

definition near_zero :: "real option \<Rightarrow> bool" where
  "near_zero c \<longleftrightarrow> c = None \<or> c = Some 0"

text \<open>
  What the dictionary of a row without a fragment holds: no \<open>despawn_time\<close> and no
  \<open>spawn_time\<close>, the key \<open>end_time\<close> still there with \<open>None\<close>, position, id, class
  and first detection as stored, and \<open>last_non_scanned\<close> as given.
\<close>

definition omits_derived :: "trsspawn \<Rightarrow> datetime option \<Rightarrow> spawnpoint_dict \<Rightarrow> bool" where
  "omits_derived row lns sp \<longleftrightarrow>
     despawn_time sp = None \<and> spawn_time sp = None \<and> end_time sp = Some None \<and>
     sp_latitude sp = ts_latitude row \<and> sp_longitude sp = ts_longitude row \<and>
     sp_spawnpoint_id sp = spawnpoint row \<and> sp_spawndef sp = spawndef row \<and>
     sp_first_detection sp = first_detection row \<and> sp_last_non_scanned sp = lns"

section \<open>Concrete data for the examples\<close>

text \<open>2020-01-01 14:10:00, and a spawn point whose occupant leaves at 05:30 past the hour.\<close>

definition now_1410 :: datetime where
  "now_1410 = \<lparr> dt_ordinal = 737425, dt_hour = 14, dt_minute = 10, dt_second = 0,
                dt_microsecond = 0 \<rparr>"

definition spawn_0530 :: trsspawn where
  "spawn_0530 =
     \<lparr> spawnpoint = ''2491'', ts_latitude = 52.5, ts_longitude = 13.4, spawndef = 240,
       earliest_unseen = 0, last_scanned = Some now_1410, first_detection = now_1410,
       last_non_scanned = None, calc_endminsec = Some ''05:30'', eventid = 1 \<rparr>"

text \<open>
  Five sightings around the box with corners (1, 1) and (2, 2): the first inside the part
  west of longitude 1.5, the second and third east of it, the fourth outside the box, the
  fifth inside but gone since 14:00.
\<close>

definition mk_pokemon :: "nat \<Rightarrow> int \<Rightarrow> real \<Rightarrow> real \<Rightarrow> int \<Rightarrow> int \<Rightarrow> pokemon" where
  "mk_pokemon i kind lat lng gone_hour modified_hour =
     \<lparr> encounter_id = i, spawnpoint_id = 2491, pokemon_id = kind, pk_latitude = lat,
       pk_longitude = lng, disappear_time = now_1410\<lparr>dt_hour := gone_hour, dt_minute := 0\<rparr>,
       pk_last_modified = Some (now_1410\<lparr>dt_hour := modified_hour, dt_minute := 5\<rparr>) \<rparr>"

definition sightings :: "pokemon list" where
  "sightings =
     [mk_pokemon 1 16 1.5 1.2 15 14,
      mk_pokemon 2 19 1.5 1.8 15 13,
      mk_pokemon 3 25 1.5 1.9 15 13,
      mk_pokemon 4 16 5 5 15 13,
      mk_pokemon 5 16 1.5 1.8 14 13]"

definition plain :: "pokemon \<Rightarrow> active_row" where
  "plain p = \<lparr> ar_pokemon = p, verified_disappear_time = None \<rparr>"

text \<open>
  Two scan cells inside the box, the first last modified at 13:05 and the second at 14:05,
  and a weather cell at a given point.
\<close>

definition mk_location :: "nat \<Rightarrow> real \<Rightarrow> real \<Rightarrow> int \<Rightarrow> scannedlocation" where
  "mk_location i lat lng modified_hour =
     \<lparr> cellid = i, sl_latitude = lat, sl_longitude = lng,
       sl_last_modified = Some (now_1410\<lparr>dt_hour := modified_hour, dt_minute := 5\<rparr>) \<rparr>"

definition locations :: "scannedlocation list" where
  "locations = [mk_location 7 1.5 1.8 13, mk_location 8 1.5 1.2 14]"

definition mk_weather :: "string \<Rightarrow> real \<Rightarrow> real \<Rightarrow> weather" where
  "mk_weather c lat lng =
     \<lparr> s2_cell_id = c, w_latitude = lat, w_longitude = lng, gameplay_weather = Some 1,
       severity = None, world_time = Some 1, w_last_updated = Some now_1410 \<rparr>"

text \<open>
  Two stops at 14:10: the incident of the first expires at 14:10 exactly; the second
  stores a grunt type without an expiration.
\<close>

definition stop_at_boundary :: pokestop where
  "stop_at_boundary =
     \<lparr> pokestop_id = ''b1'', name = None, image = None, ps_latitude = 1.5, ps_longitude = 1.5,
       last_updated = Some now_1410, incident_grunt_type = Some 4,
       incident_expiration = Some now_1410, active_fort_modifier = Some 501,
       lure_expiration = Some (now_1410\<lparr>dt_hour := 13\<rparr>) \<rparr>"

definition stop_without_expiration :: pokestop where
  "stop_without_expiration =
     \<lparr> pokestop_id = ''b2'', name = None, image = None, ps_latitude = 1.5, ps_longitude = 1.5,
       last_updated = Some now_1410, incident_grunt_type = Some 4,
       incident_expiration = None, active_fort_modifier = None, lure_expiration = None \<rparr>"

section \<open>Properties of the datetime arithmetic\<close>

lemmas query_defs =
  get_active_def select_columns_def kind_filter_def truthy_list_def box_given_def truthy_def
  in_box_def sql_gt_def sql_ge_def utcfromtimestamp_ms_def epoch_def Let_def

lemmas time_defs =
  dt_less_def dt_le_def dt_add_def dt_sub_def dt_to_us_def dt_of_us_def MAXORDINAL_def
  td_hours_def td_minutes_def now_1410_def

lemma dt_valid_time_ok: "dt_valid d \<Longrightarrow> time_ok d"
  by (simp add: dt_valid_def time_ok_def)

lemma lex_step:
  fixes K :: int
  assumes "0 \<le> r1" "r1 < K" "0 \<le> r2" "r2 < K"
  shows "q1 * K + r1 < q2 * K + r2 \<longleftrightarrow> q1 < q2 \<or> (q1 = q2 \<and> r1 < r2)"
proof (cases "q1 < q2")
  case True
  then have "(q1 + 1) * K \<le> q2 * K"
    using assms by (intro mult_right_mono) auto
  then show ?thesis using True assms by (simp add: algebra_simps)
next
  case False
  show ?thesis
  proof (cases "q1 = q2")
    case True
    then show ?thesis by simp
  next
    case ne: False
    with False have "q2 < q1" by simp
    then have "(q2 + 1) * K \<le> q1 * K"
      using assms by (intro mult_right_mono) auto
    then show ?thesis using False ne assms by (simp add: algebra_simps)
  qed
qed

lemma lex_eq:
  fixes K :: int
  assumes "0 \<le> r1" "r1 < K" "0 \<le> r2" "r2 < K"
  shows "q1 * K + r1 = q2 * K + r2 \<longleftrightarrow> q1 = q2 \<and> r1 = r2"
  using lex_step[OF assms, of q1 q2] lex_step[OF assms(3,4,1,2), of q2 q1] by auto

lemma dt_less_iff_us:
  assumes "time_ok a" "time_ok b"
  shows "dt_less a b \<longleftrightarrow> dt_to_us a < dt_to_us b"
proof -
  have ra: "0 \<le> dt_hour a" "dt_hour a < 24" "0 \<le> dt_minute a" "dt_minute a < 60"
    "0 \<le> dt_second a" "dt_second a < 60" "0 \<le> dt_microsecond a" "dt_microsecond a < 1000000"
    using assms(1) by (simp_all add: time_ok_def)
  have rb: "0 \<le> dt_hour b" "dt_hour b < 24" "0 \<le> dt_minute b" "dt_minute b < 60"
    "0 \<le> dt_second b" "dt_second b < 60" "0 \<le> dt_microsecond b" "dt_microsecond b < 1000000"
    using assms(2) by (simp_all add: time_ok_def)
  show ?thesis
    unfolding dt_to_us_def dt_less_def
    by (simp only: lex_step[OF ra(7,8) rb(7,8)] lex_step[OF ra(5,6) rb(5,6)]
        lex_step[OF ra(3,4) rb(3,4)] lex_step[OF ra(1,2) rb(1,2)]
        lex_eq[OF ra(5,6) rb(5,6)] lex_eq[OF ra(3,4) rb(3,4)] lex_eq[OF ra(1,2) rb(1,2)])
      blast
qed

lemma of_us_to_us:
  assumes "time_ok d"
  shows "dt_of_us (dt_to_us d) = d"
proof -
  let ?o = "dt_ordinal d" and ?h = "dt_hour d" and ?m = "dt_minute d"
    and ?s = "dt_second d" and ?u = "dt_microsecond d"
  let ?n = "dt_to_us d"
  have r: "0 \<le> ?h" "?h < 24" "0 \<le> ?m" "?m < 60" "0 \<le> ?s" "?s < 60" "0 \<le> ?u" "?u < 1000000"
    using assms by (simp_all add: time_ok_def)
  have n: "?n = (((?o * 24 + ?h) * 60 + ?m) * 60 + ?s) * 1000000 + ?u"
    by (simp add: dt_to_us_def)
  have d1: "?n div 86400000000 = ?o"
    by (rule int_div_pos_eq[where r = "((?h * 60 + ?m) * 60 + ?s) * 1000000 + ?u"]) (use r n in simp_all)
  have d2: "?n div 3600000000 = ?o * 24 + ?h"
    by (rule int_div_pos_eq[where r = "(?m * 60 + ?s) * 1000000 + ?u"]) (use r n in simp_all)
  have d3: "?n div 60000000 = (?o * 24 + ?h) * 60 + ?m"
    by (rule int_div_pos_eq[where r = "?s * 1000000 + ?u"]) (use r n in simp_all)
  have d4: "?n div 1000000 = ((?o * 24 + ?h) * 60 + ?m) * 60 + ?s"
    by (rule int_div_pos_eq[where r = "?u"]) (use r n in simp_all)
  have m1: "?n mod 1000000 = ?u"
    by (rule int_mod_pos_eq[where q = "((?o * 24 + ?h) * 60 + ?m) * 60 + ?s"]) (use r n in simp_all)
  have m2: "(?o * 24 + ?h) mod 24 = ?h"
    by (rule int_mod_pos_eq[where q = "?o"]) (use r in simp_all)
  have m3: "((?o * 24 + ?h) * 60 + ?m) mod 60 = ?m"
    by (rule int_mod_pos_eq[where q = "?o * 24 + ?h"]) (use r in simp_all)
  have m4: "(((?o * 24 + ?h) * 60 + ?m) * 60 + ?s) mod 60 = ?s"
    by (rule int_mod_pos_eq[where q = "(?o * 24 + ?h) * 60 + ?m"]) (use r in simp_all)
  show ?thesis
    unfolding dt_of_us_def d1 d2 d3 d4 m1 m2 m3 m4 by simp
qed

lemma to_us_of_us: "dt_to_us (dt_of_us n) = n"
proof -
  have a: "n div 60000000 = n div 1000000 div 60"
    by (simp add: div_mult2_eq')
  have b: "n div 3600000000 = n div 1000000 div 60 div 60"
    by (simp add: div_mult2_eq')
  have c: "n div 86400000000 = n div 1000000 div 60 div 60 div 24"
    by (simp add: div_mult2_eq')
  show ?thesis
    unfolding dt_to_us_def dt_of_us_def a b c by simp
qed

lemma time_ok_of_us: "time_ok (dt_of_us n)"
  by (simp add: time_ok_def dt_of_us_def)


section \<open>Parsing a well-formed fragment\<close>

lemma of_char_digit_char: "k < 10 \<Longrightarrow> (of_char (digit_char k) :: nat) = 48 + k"
  by (simp add: digit_char_def)

lemma digit_char_neq:
  assumes "k < 10" "(of_char c :: nat) < 48 \<or> 57 < (of_char c :: nat)"
  shows "digit_char k \<noteq> c"
proof
  assume "digit_char k = c"
  then have "(of_char c :: nat) = 48 + k"
    using of_char_digit_char[OF assms(1)] by simp
  with assms show False by auto
qed

lemma digit_char_facts:
  assumes "k < 10"
  shows "is_digit (digit_char k)" "\<not> is_space (digit_char k)" "digit_val (digit_char k) = int k"
    "digit_char k \<noteq> CHR '':''" "digit_char k \<noteq> CHR ''+''" "digit_char k \<noteq> CHR ''-''"
proof -
  show "is_digit (digit_char k)" "\<not> is_space (digit_char k)" "digit_val (digit_char k) = int k"
    using assms by (auto simp: is_digit_def is_space_def digit_val_def of_char_digit_char)
  show "digit_char k \<noteq> CHR '':''" by (rule digit_char_neq[OF assms]) simp
  show "digit_char k \<noteq> CHR ''+''" by (rule digit_char_neq[OF assms]) simp
  show "digit_char k \<noteq> CHR ''-''" by (rule digit_char_neq[OF assms]) simp
qed

lemma py_int_two_digits:
  assumes "a < 10" "b < 10"
  shows "py_int [digit_char a, digit_char b] = Inr (int (10 * a + b))"
  using digit_char_facts[OF assms(1)] digit_char_facts[OF assms(2)]
  by (simp add: py_int_def strip_def)

lemma split_mmss:
  assumes "m < 60" "s < 60"
  shows "split_on CHR '':'' (mmss m s) =
         [[digit_char (m div 10), digit_char (m mod 10)], [digit_char (s div 10), digit_char (s mod 10)]]"
proof -
  have "m div 10 < 10" "m mod 10 < 10" "s div 10 < 10" "s mod 10 < 10"
    using assms by auto
  then show ?thesis
    by (simp add: mmss_def digit_char_facts(4))
qed

lemma parse_mmss:
  assumes "m < 60" "s < 60"
  shows "despawn_time_local today1 today2 (mmss m s) =
         ebind (dt_replace today1 (int m) (int s) 0) (\<lambda>despawn_time.
           if dt_le despawn_time today2 then dt_add despawn_time (td_hours 1) else Inr despawn_time)"
proof -
  have d: "m div 10 < 10" "m mod 10 < 10" "s div 10 < 10" "s mod 10 < 10"
    using assms by auto
  have "py_int [digit_char (m div 10), digit_char (m mod 10)] = Inr (int m)"
    using py_int_two_digits[OF d(1,2)] by simp
  moreover have "py_int [digit_char (s div 10), digit_char (s mod 10)] = Inr (int s)"
    using py_int_two_digits[OF d(3,4)] by simp
  ultimately show ?thesis
    by (simp add: despawn_time_local_def split_mmss[OF assms] py_index_def ebind_def)
qed

lemma dt_eq_iff_us:
  assumes "time_ok a" "time_ok b"
  shows "a = b \<longleftrightarrow> dt_to_us a = dt_to_us b"
  using of_us_to_us[OF assms(1)] of_us_to_us[OF assms(2)] by metis

lemma dt_le_iff_us:
  assumes "time_ok a" "time_ok b"
  shows "dt_le a b \<longleftrightarrow> dt_to_us a \<le> dt_to_us b"
  unfolding dt_le_def dt_less_iff_us[OF assms] dt_eq_iff_us[OF assms] by auto

lemma to_us_bounds:
  assumes "time_ok d"
  shows "dt_ordinal d * 86400000000 \<le> dt_to_us d"
    and "dt_to_us d < dt_ordinal d * 86400000000 + 86400000000"
  using assms unfolding time_ok_def dt_to_us_def by auto

lemma dt_add_ok:
  assumes "86400000000 \<le> dt_to_us d + td" "dt_to_us d + td < 315537984000000000"
  shows "dt_add d td = Inr (dt_of_us (dt_to_us d + td))"
proof -
  let ?x = "dt_to_us d + td"
  have "1 \<le> ?x div 86400000000"
    using assms(1) zdiv_mono1[of 86400000000 ?x 86400000000] by simp
  moreover have "?x div 86400000000 \<le> 3652059"
    using assms(2) zdiv_mono1[of ?x 315537983999999999 86400000000] by simp
  ultimately show ?thesis
    by (simp add: dt_add_def Let_def dt_of_us_def MAXORDINAL_def)
qed

lemma candidate:
  assumes "time_ok now" "m < 60" "s < 60"
  defines "cand \<equiv> now\<lparr>dt_minute := int m, dt_second := int s, dt_microsecond := 0\<rparr>"
  defines "H \<equiv> (dt_ordinal now * 24 + dt_hour now) * 3600000000"
  shows "dt_replace now (int m) (int s) 0 = Inr cand"
    and "time_ok cand"
    and "dt_to_us cand = H + (60 * int m + int s) * 1000000"
    and "H \<le> dt_to_us now" and "dt_to_us now < H + 3600000000"
  using assms(1-3) unfolding cand_def H_def time_ok_def dt_replace_def dt_to_us_def
  by auto


lemma ebind_simps [simp]:
  "ebind (Inr x) f = f x" "ebind (Inl e) f = Inl e"
  by (simp_all add: ebind_def)

lemma dt_sub_ok:
  assumes "86400000000 \<le> dt_to_us d - td" "dt_to_us d - td < 315537984000000000"
  shows "dt_sub d td = Inr (dt_of_us (dt_to_us d - td))"
  using dt_add_ok[of d "- td"] assms by (simp add: dt_sub_def)

section \<open>Despawn-time inference\<close>

lemma local_despawn:
  assumes "m < 60" "s < 60" "dt_valid now" "dt_ordinal now < MAXORDINAL"
  defines "cand \<equiv> now\<lparr>dt_minute := int m, dt_second := int s, dt_microsecond := 0\<rparr>"
  shows "\<exists>d. despawn_time_local now now (mmss m s) = Inr d
           \<and> (if dt_le cand now then dt_add cand (td_hours 1) = Inr d else d = cand)
           \<and> time_ok d
           \<and> dt_to_us now < dt_to_us d \<and> dt_to_us d \<le> dt_to_us now + 3600000000
           \<and> dt_ordinal now * 86400000000 \<le> dt_to_us d"
proof -
  define H where "H = (dt_ordinal now * 24 + dt_hour now) * 3600000000"
  have ok: "time_ok now" using assms(3) by (rule dt_valid_time_ok)
  have ord: "1 \<le> dt_ordinal now" "dt_ordinal now \<le> 3652058"
    using assms(3,4) by (simp_all add: dt_valid_def MAXORDINAL_def)
  note c = candidate[OF ok assms(1,2), folded cand_def H_def]
  have le: "dt_le cand now \<longleftrightarrow> dt_to_us cand \<le> dt_to_us now"
    by (rule dt_le_iff_us[OF c(2) ok])
  have nb: "dt_ordinal now * 86400000000 \<le> dt_to_us now"
    "dt_to_us now < dt_ordinal now * 86400000000 + 86400000000"
    using to_us_bounds[OF ok] by simp_all
  have cb: "dt_ordinal now * 86400000000 \<le> dt_to_us cand"
    using to_us_bounds(1)[OF c(2)] by (simp add: cand_def)
  have local: "despawn_time_local now now (mmss m s) =
      (if dt_le cand now then dt_add cand (td_hours 1) else Inr cand)"
    by (simp add: parse_mmss[OF assms(1,2)] c(1) ebind_def)
  show ?thesis
  proof (cases "dt_le cand now")
    case True
    then have cn: "dt_to_us cand \<le> dt_to_us now" using le by simp
    have add: "dt_add cand (td_hours 1) = Inr (dt_of_us (dt_to_us cand + 3600000000))"
      using dt_add_ok[of cand 3600000000] cn cb nb ord by (simp add: td_hours_def)
    show ?thesis
      using True local add c(3,4,5) cn cb assms(1,2)
      by (intro exI[of _ "dt_of_us (dt_to_us cand + 3600000000)"])
         (simp add: to_us_of_us time_ok_of_us)
  next
    case False
    then have cn: "dt_to_us now < dt_to_us cand" using le by simp
    show ?thesis
      using False local c(2,3,4,5) cn cb assms(1,2)
      by (intro exI[of _ cand]) simp
  qed
qed

lemma mmss_0530: "mmss 5 30 = ''05:30''"
  by code_simp

text \<open>
  C2. For a well-formed fragment \<open>"MM:SS"\<close>, with both clock reads returning \<open>now\<close>:
  the candidate is \<open>now\<close> with minute \<open>MM\<close>, second \<open>SS\<close> and microsecond 0 (date
  and hour unchanged); the local despawn time \<open>d\<close> is the candidate plus one hour when
  the candidate is not after \<open>now\<close>, and the candidate otherwise; the emitted
  \<open>despawn_time\<close> is \<open>d\<close> minus the UTC offset, and the emitted \<open>spawn_time\<close> is
  the emitted \<open>despawn_time\<close> minus one hour when \<open>spawndef\<close> is 15 and minus 30
  minutes otherwise. The range conditions keep every intermediate date between years 1
  and 9999.
\<close>

theorem despawn_inference:
  assumes "m < 60" "s < 60"
    and "dt_valid now" "3 \<le> dt_ordinal now" "dt_ordinal now \<le> MAXORDINAL - 2"
    and "\<bar>utc_offset\<bar> \<le> 86400000000"
    and "calc_endminsec row = Some (mmss m s)"
  shows "\<exists>d despawn spawn.
           (if dt_le (now\<lparr>dt_minute := int m, dt_second := int s, dt_microsecond := 0\<rparr>) now
            then dt_add (now\<lparr>dt_minute := int m, dt_second := int s, dt_microsecond := 0\<rparr>)
                   (td_hours 1) = Inr d
            else d = now\<lparr>dt_minute := int m, dt_second := int s, dt_microsecond := 0\<rparr>)
         \<and> despawn_time_local now now (mmss m s) = Inr d
         \<and> dt_sub d utc_offset = Inr despawn
         \<and> dt_sub despawn (if spawndef row = 15 then td_hours 1 else td_minutes 30) = Inr spawn
         \<and> spawnpoint_entry utc_offset now now row =
             ebind (minus_offset (last_non_scanned row) utc_offset) (\<lambda>lns.
             ebind (minus_offset (last_scanned row) utc_offset) (\<lambda>ls.
             Inr ((asdict row)\<lparr>sp_last_non_scanned := lns, sp_last_scanned := ls,
                    end_time := None, despawn_time := Some despawn,
                    spawn_time := Some spawn\<rparr>)))"
proof -
  have ord: "3 \<le> dt_ordinal now" "dt_ordinal now \<le> 3652057"
    using assms(4,5) by (simp_all add: MAXORDINAL_def)
  have lt: "dt_ordinal now < MAXORDINAL" using ord by (simp add: MAXORDINAL_def)
  have ok: "time_ok now" using assms(3) by (rule dt_valid_time_ok)
  obtain d where d: "despawn_time_local now now (mmss m s) = Inr d"
    "if dt_le (now\<lparr>dt_minute := int m, dt_second := int s, dt_microsecond := 0\<rparr>) now
     then dt_add (now\<lparr>dt_minute := int m, dt_second := int s, dt_microsecond := 0\<rparr>)
            (td_hours 1) = Inr d
     else d = now\<lparr>dt_minute := int m, dt_second := int s, dt_microsecond := 0\<rparr>"
    "dt_to_us d \<le> dt_to_us now + 3600000000" "dt_ordinal now * 86400000000 \<le> dt_to_us d"
    using local_despawn[OF assms(1,2,3) lt] by blast
  have nb: "dt_to_us now < dt_ordinal now * 86400000000 + 86400000000"
    using to_us_bounds[OF ok] by simp
  define despawn where "despawn = dt_of_us (dt_to_us d - utc_offset)"
  define delta where "delta = (if spawndef row = 15 then td_hours 1 else td_minutes 30)"
  define spawn where "spawn = dt_of_us (dt_to_us despawn - delta)"
  have delta: "0 \<le> delta" "delta \<le> 3600000000"
    by (simp_all add: delta_def td_hours_def td_minutes_def)
  have s1: "dt_sub d utc_offset = Inr despawn"
    unfolding despawn_def using assms(6) d(3,4) nb ord by (intro dt_sub_ok) linarith+
  have du: "dt_to_us despawn = dt_to_us d - utc_offset"
    by (simp add: despawn_def to_us_of_us)
  have "86400000000 \<le> dt_to_us despawn - delta"
    and "dt_to_us despawn - delta < 315537984000000000"
    using assms(6) d(3,4) nb ord delta du by linarith+
  then have s2: "dt_sub despawn delta = Inr spawn"
    unfolding spawn_def by (rule dt_sub_ok)
  have entry: "spawnpoint_entry utc_offset now now row =
             ebind (minus_offset (last_non_scanned row) utc_offset) (\<lambda>lns.
             ebind (minus_offset (last_scanned row) utc_offset) (\<lambda>ls.
             Inr ((asdict row)\<lparr>sp_last_non_scanned := lns, sp_last_scanned := ls,
                    end_time := None, despawn_time := Some despawn,
                    spawn_time := Some spawn\<rparr>)))"
  proof (cases "spawndef row = 15")
    case True
    with s2 have "dt_sub despawn (td_hours 1) = Inr spawn" by (simp add: delta_def)
    with True s1 d(1) assms(7) show ?thesis
      by (simp add: spawnpoint_entry_def Let_def asdict_def)
  next
    case False
    with s2 have "dt_sub despawn (td_minutes 30) = Inr spawn" by (simp add: delta_def)
    with False s1 d(1) assms(7) show ?thesis
      by (simp add: spawnpoint_entry_def Let_def asdict_def)
  qed
  show ?thesis
    using d(1,2) s1 s2 entry unfolding delta_def by blast
qed

theorem despawn_inference_witness:
  "dt_valid now_1410 \<and> 3 \<le> dt_ordinal now_1410 \<and> dt_ordinal now_1410 \<le> MAXORDINAL - 2 \<and>
   calc_endminsec spawn_0530 = Some (mmss 5 30) \<and>
   spawnpoint_entry 0 now_1410 now_1410 spawn_0530 =
     Inr ((asdict spawn_0530)\<lparr> end_time := None,
            despawn_time := Some (now_1410\<lparr>dt_hour := 15, dt_minute := 5, dt_second := 30\<rparr>),
            spawn_time := Some (now_1410\<lparr>dt_hour := 14, dt_minute := 35, dt_second := 30\<rparr>) \<rparr>)"
proof -
  have h: "dt_valid now_1410" "3 \<le> dt_ordinal now_1410" "dt_ordinal now_1410 \<le> MAXORDINAL - 2"
    "\<bar>0::int\<bar> \<le> 86400000000" "calc_endminsec spawn_0530 = Some (mmss 5 30)"
    by (simp_all add: now_1410_def dt_valid_def MAXORDINAL_def spawn_0530_def mmss_0530)
  have m: "(5::nat) < 60" "(30::nat) < 60" by simp_all
  from despawn_inference[OF m h]
  obtain d despawn spawn where
    r: "despawn_time_local now_1410 now_1410 (mmss 5 30) = Inr d"
       "dt_sub d 0 = Inr despawn"
       "dt_sub despawn (if spawndef spawn_0530 = 15 then td_hours 1 else td_minutes 30) = Inr spawn"
       "spawnpoint_entry 0 now_1410 now_1410 spawn_0530 =
          ebind (minus_offset (last_non_scanned spawn_0530) 0) (\<lambda>lns.
          ebind (minus_offset (last_scanned spawn_0530) 0) (\<lambda>ls.
          Inr ((asdict spawn_0530)\<lparr>sp_last_non_scanned := lns, sp_last_scanned := ls,
                 end_time := None, despawn_time := Some despawn, spawn_time := Some spawn\<rparr>)))"
    by blast
  have cand: "dt_replace now_1410 5 30 0 = Inr (now_1410\<lparr>dt_minute := 5, dt_second := 30\<rparr>)"
    by (simp add: dt_replace_def now_1410_def)
  have "despawn_time_local now_1410 now_1410 (mmss 5 30) =
          Inr (now_1410\<lparr>dt_hour := 15, dt_minute := 5, dt_second := 30\<rparr>)"
    by (simp add: parse_mmss[OF m] cand)
       (simp add: now_1410_def dt_le_def dt_less_def dt_add_def dt_to_us_def dt_of_us_def
          td_hours_def MAXORDINAL_def)
  with r(1) have d: "d = now_1410\<lparr>dt_hour := 15, dt_minute := 5, dt_second := 30\<rparr>" by simp
  have despawn: "despawn = now_1410\<lparr>dt_hour := 15, dt_minute := 5, dt_second := 30\<rparr>"
    using r(2) unfolding d
    by (simp add: now_1410_def dt_sub_def dt_add_def dt_to_us_def dt_of_us_def MAXORDINAL_def)
  have spawn: "spawn = now_1410\<lparr>dt_hour := 14, dt_minute := 35, dt_second := 30\<rparr>"
    using r(3) unfolding despawn
    by (simp add: spawn_0530_def now_1410_def dt_sub_def dt_add_def dt_to_us_def dt_of_us_def
        MAXORDINAL_def td_minutes_def)
  have "spawnpoint_entry 0 now_1410 now_1410 spawn_0530 =
     Inr ((asdict spawn_0530)\<lparr> end_time := None,
            despawn_time := Some (now_1410\<lparr>dt_hour := 15, dt_minute := 5, dt_second := 30\<rparr>),
            spawn_time := Some (now_1410\<lparr>dt_hour := 14, dt_minute := 35, dt_second := 30\<rparr>) \<rparr>)"
    unfolding r(4) despawn spawn
    by (simp add: spawn_0530_def minus_offset_def asdict_def now_1410_def dt_sub_def dt_add_def
        dt_to_us_def dt_of_us_def MAXORDINAL_def)
  with h show ?thesis by simp
qed

text \<open>
  The specification's second example: fragment 05:30 at 14:02 for the full-hour class
  gives a despawn time of 14:05:30 and a spawn time of 13:05:30.
\<close>

lemma example_full_hour_class:
  "spawnpoint_entry 0 (now_1410\<lparr>dt_minute := 2\<rparr>) (now_1410\<lparr>dt_minute := 2\<rparr>)
     (spawn_0530\<lparr>spawndef := 15\<rparr>) =
   Inr ((asdict (spawn_0530\<lparr>spawndef := 15\<rparr>))\<lparr> end_time := None,
          despawn_time := Some (now_1410\<lparr>dt_minute := 5, dt_second := 30\<rparr>),
          spawn_time := Some (now_1410\<lparr>dt_hour := 13, dt_minute := 5, dt_second := 30\<rparr>) \<rparr>)"
proof -
  have m: "(5::nat) < 60" "(30::nat) < 60" by simp_all
  have cand: "dt_replace (now_1410\<lparr>dt_minute := 2\<rparr>) 5 30 0 =
              Inr (now_1410\<lparr>dt_minute := 5, dt_second := 30\<rparr>)"
    by (simp add: dt_replace_def now_1410_def)
  have local: "despawn_time_local (now_1410\<lparr>dt_minute := 2\<rparr>) (now_1410\<lparr>dt_minute := 2\<rparr>) ''05:30'' =
          Inr (now_1410\<lparr>dt_minute := 5, dt_second := 30\<rparr>)"
    unfolding mmss_0530[symmetric]
    by (simp add: parse_mmss[OF m] cand) (simp add: time_defs)
  show ?thesis
    by (simp add: spawnpoint_entry_def asdict_def spawn_0530_def minus_offset_def local)
       (simp add: time_defs)
qed

text \<open>
  C3. With both clock reads returning \<open>now\<close>, the local despawn time of a well-formed
  fragment, before the offset is subtracted, is a value \<open>d\<close> fixed by the fragment and
  \<open>now\<close>, strictly after \<open>now\<close> and not after \<open>now\<close> plus one hour.
\<close>

theorem despawn_after_now_within_hour:
  assumes "m < 60" "s < 60" "dt_valid now" "dt_ordinal now < MAXORDINAL"
  shows "\<exists>d later. despawn_time_local now now (mmss m s) = Inr d
           \<and> dt_less now d
           \<and> dt_add now (td_hours 1) = Inr later \<and> dt_le d later"
proof -
  have ok: "time_ok now" using assms(3) by (rule dt_valid_time_ok)
  have ord: "1 \<le> dt_ordinal now" "dt_ordinal now \<le> 3652058"
    using assms(3,4) by (simp_all add: dt_valid_def MAXORDINAL_def)
  obtain d where d: "despawn_time_local now now (mmss m s) = Inr d" "time_ok d"
    "dt_to_us now < dt_to_us d" "dt_to_us d \<le> dt_to_us now + 3600000000"
    using local_despawn[OF assms] by blast
  have later: "dt_add now (td_hours 1) = Inr (dt_of_us (dt_to_us now + 3600000000))"
    using dt_add_ok[of now 3600000000] to_us_bounds[OF ok] ord by (simp add: td_hours_def)
  have "dt_less now d"
    using d(3) by (simp add: dt_less_iff_us[OF ok d(2)])
  moreover have "dt_le d (dt_of_us (dt_to_us now + 3600000000))"
    using d(4) by (simp add: dt_le_iff_us[OF d(2) time_ok_of_us] to_us_of_us)
  ultimately show ?thesis using d(1) later by blast
qed


theorem despawn_after_now_within_hour_witness:
  "dt_valid now_1410 \<and> dt_ordinal now_1410 < MAXORDINAL \<and>
   (\<exists>d later. despawn_time_local now_1410 now_1410 (mmss 5 30) = Inr d
       \<and> dt_less now_1410 d
       \<and> dt_add now_1410 (td_hours 1) = Inr later \<and> dt_le d later)"
  using despawn_after_now_within_hour[of 5 30 now_1410]
  by (simp add: now_1410_def dt_valid_def MAXORDINAL_def)

section \<open>Sync modes of the sighting query\<close>

lemma get_active_modes:
  "get_active now eq spawns pokemons s w n e os ow on oe ts eids ids v =
     sightings_in_mode (select_mode (box_given s w n e) (box_given os ow on oe) (0 < ts))
        now s w n e os ow on oe ts (kind_filter eids ids (select_columns v eq spawns pokemons))"
  by (auto simp: get_active_def sightings_in_mode_def select_mode_def live_def inside_def Let_def
      intro!: filter_cong arg_cong2[where f=ebind])

text \<open>
  C4. \<open>get_active\<close> is the specification's mode machine: the mode is a function of
  (box given, previous box given, timestamp positive), tested in the order no-box,
  delta-by-timestamp, panned, fallback, and the query returns what the selected mode
  prescribes. The four equations for \<open>select_mode\<close> cover all eight combinations; a
  positive timestamp with a box selects the timestamp mode whether or not a previous box
  is given.
\<close>

theorem mode_selection_total:
  "get_active now eq spawns pokemons s w n e os ow on oe ts eids ids v =
     sightings_in_mode (select_mode (box_given s w n e) (box_given os ow on oe) (0 < ts))
        now s w n e os ow on oe ts (kind_filter eids ids (select_columns v eq spawns pokemons))
   \<and> select_mode False previous_present since_positive = NoBox
   \<and> select_mode True previous_present True = DeltaByTimestamp
   \<and> select_mode True True False = Panned
   \<and> select_mode True False False = Fallback"
  by (simp add: get_active_modes) (simp add: select_mode_def)

text \<open>
  At a positive timestamp with a previous box the query returns the rows modified after
  the timestamp, here the first sighting, which the panned mode would have excluded.
\<close>

theorem mode_selection_total_witness:
  "get_active now_1410 (\<lambda>_ _. False) [] sightings (Some 1) (Some 1) (Some 2) (Some 2)
      (Some 1) (Some 1) (Some 2) (Some 1.5) 1577887200000 None None False =
     Inr [plain (mk_pokemon 1 16 1.5 1.2 15 14)]
   \<and> sightings_in_mode Panned now_1410 (Some 1) (Some 1) (Some 2) (Some 2)
      (Some 1) (Some 1) (Some 2) (Some 1.5) 1577887200000 (map plain sightings) =
     Inr [plain (mk_pokemon 2 19 1.5 1.8 15 13), plain (mk_pokemon 3 25 1.5 1.9 15 13)]"
proof -
  have sel: "select_mode (box_given (Some 1) (Some 1) (Some 2) (Some 2))
               (box_given (Some 1) (Some 1) (Some 2) (Some 1.5)) (0 < (1577887200000::int))
             = DeltaByTimestamp"
    by (simp add: select_mode_def box_given_def truthy_def)
  have rows: "kind_filter None None (select_columns False (\<lambda>_ _. False) [] sightings)
              = map plain sightings"
    by (simp add: kind_filter_def truthy_list_def select_columns_def plain_def)
  have since: "utcfromtimestamp_ms 1577887200000 = Inr (now_1410\<lparr>dt_hour := 14, dt_minute := 0\<rparr>)"
    by (simp add: utcfromtimestamp_ms_def epoch_def time_defs)
  have "sightings_in_mode DeltaByTimestamp now_1410 (Some 1) (Some 1) (Some 2) (Some 2)
      (Some 1) (Some 1) (Some 2) (Some 1.5) 1577887200000 (map plain sightings) =
     Inr [plain (mk_pokemon 1 16 1.5 1.2 15 14)]"
    by (simp add: sightings_in_mode_def since)
       (simp add: sightings_def plain_def mk_pokemon_def inside_def live_def in_box_def sql_gt_def
          time_defs)
  moreover have "sightings_in_mode Panned now_1410 (Some 1) (Some 1) (Some 2) (Some 2)
      (Some 1) (Some 1) (Some 2) (Some 1.5) 1577887200000 (map plain sightings) =
     Inr [plain (mk_pokemon 2 19 1.5 1.8 15 13), plain (mk_pokemon 3 25 1.5 1.9 15 13)]"
    by (simp add: sightings_in_mode_def sightings_def plain_def mk_pokemon_def inside_def live_def
          in_box_def time_defs)
  moreover have "get_active now_1410 (\<lambda>_ _. False) [] sightings (Some 1) (Some 1) (Some 2) (Some 2)
      (Some 1) (Some 1) (Some 2) (Some 1.5) 1577887200000 None None False =
     sightings_in_mode DeltaByTimestamp now_1410 (Some 1) (Some 1) (Some 2) (Some 2)
      (Some 1) (Some 1) (Some 2) (Some 1.5) 1577887200000 (map plain sightings)"
    using mode_selection_total[of now_1410 "\<lambda>_ _. False" "[]" sightings "Some 1" "Some 1" "Some 2"
        "Some 2" "Some 1" "Some 1" "Some 2" "Some 1.5" 1577887200000 None None False]
    unfolding sel rows by (rule conjunct1)
  ultimately show ?thesis by simp
qed

section \<open>Inclusion and exclusion sets\<close>

text \<open>
  C6 as stated fails: the inclusion set does not take priority. With \<open>ids = [16]\<close> and
  \<open>eids = [19]\<close> the fallback query returns the sighting of kind 25, which is not in the
  inclusion set.
\<close>

theorem inclusion_priority_counterexample:
  "get_active now_1410 (\<lambda>_ _. False) [] sightings (Some 1) (Some 1) (Some 2) (Some 2)
      None None None None 0 (Some [19]) (Some [16]) False =
     Inr [plain (mk_pokemon 1 16 1.5 1.2 15 14), plain (mk_pokemon 3 25 1.5 1.9 15 13)]
   \<and> pokemon_id (mk_pokemon 3 25 1.5 1.9 15 13) \<notin> set [16]"
  by (simp add: query_defs sightings_def plain_def mk_pokemon_def time_defs)

text \<open>
  C6, amended. The two filters are mutually exclusive and the exclusion set has priority:
  a non-empty \<open>eids\<close> removes the kinds it lists and \<open>ids\<close> is ignored; \<open>ids\<close> is
  applied only when \<open>eids\<close> is empty or absent; with neither, no kind filter applies.
\<close>

theorem exclusion_priority:
  "(eids = Some es \<and> es \<noteq> [] \<longrightarrow>
      get_active now eq spawns pokemons s w n e os ow on oe ts eids ids v =
        sightings_in_mode (select_mode (box_given s w n e) (box_given os ow on oe) (0 < ts))
          now s w n e os ow on oe ts
          (filter (\<lambda>r. pokemon_id (ar_pokemon r) \<notin> set es) (select_columns v eq spawns pokemons)))
   \<and> (\<not> truthy_list eids \<and> ids = Some is \<and> is \<noteq> [] \<longrightarrow>
      get_active now eq spawns pokemons s w n e os ow on oe ts eids ids v =
        sightings_in_mode (select_mode (box_given s w n e) (box_given os ow on oe) (0 < ts))
          now s w n e os ow on oe ts
          (filter (\<lambda>r. pokemon_id (ar_pokemon r) \<in> set is) (select_columns v eq spawns pokemons)))
   \<and> (\<not> truthy_list eids \<and> \<not> truthy_list ids \<longrightarrow>
      get_active now eq spawns pokemons s w n e os ow on oe ts eids ids v =
        sightings_in_mode (select_mode (box_given s w n e) (box_given os ow on oe) (0 < ts))
          now s w n e os ow on oe ts (select_columns v eq spawns pokemons))"
  by (simp add: get_active_modes kind_filter_def truthy_list_def)

theorem exclusion_priority_witness:
  "Some [19] = Some [19::int] \<and> [19::int] \<noteq> [] \<and>
   get_active now_1410 (\<lambda>_ _. False) [] sightings (Some 1) (Some 1) (Some 2) (Some 2)
      None None None None 0 (Some [19]) (Some [16]) False =
     sightings_in_mode Fallback now_1410 (Some 1) (Some 1) (Some 2) (Some 2)
       None None None None 0
       (filter (\<lambda>r. pokemon_id (ar_pokemon r) \<notin> set [19]) (map plain sightings))"
proof -
  have sel: "select_mode (box_given (Some 1) (Some 1) (Some 2) (Some 2))
               (box_given None None None None) (0 < (0::int)) = Fallback"
    by (simp add: select_mode_def box_given_def truthy_def)
  have rows: "select_columns False (\<lambda>_ _. False) [] sightings = map plain sightings"
    by (simp add: select_columns_def plain_def)
  have h: "Some [19] = Some [19::int] \<and> [19::int] \<noteq> []" by simp
  from exclusion_priority[of "Some [19]" "[19]" now_1410 "\<lambda>_ _. False" "[]" sightings "Some 1"
      "Some 1" "Some 2" "Some 2" None None None None 0 "Some [16]" False, THEN conjunct1, rule_format, OF h]
  show ?thesis unfolding sel rows using h by simp
qed

section \<open>Box detection\<close>

lemma not_box_given_iff:
  "\<not> box_given s w n e \<longleftrightarrow> near_zero s \<or> near_zero w \<or> near_zero n \<or> near_zero e"
  by (auto simp: box_given_def truthy_def near_zero_def split: option.splits)

text \<open>
  C10. When one of the four current-box coordinates is \<open>None\<close> or exactly 0, the
  sighting, weather and scan-cell queries take the no-box branch: geography is ignored and
  only the kind's own no-box filter applies. When the current box is given, the timestamp
  is not positive and one of the previous-box coordinates is \<open>None\<close> or 0, each query
  behaves as if no previous box had been passed.
\<close>

theorem zero_coordinate_is_no_box:
  "(near_zero s \<or> near_zero w \<or> near_zero n \<or> near_zero e \<longrightarrow>
      get_active now eq spawns pokemons s w n e os ow on oe ts eids ids v =
        Inr (filter (\<lambda>r. dt_less now (disappear_time (ar_pokemon r)))
               (kind_filter eids ids (select_columns v eq spawns pokemons)))
    \<and> get_weather to_double weathers s w n e os ow on oe ts = Inr weathers
    \<and> get_recent now locs s w n e os ow on oe ts =
        ebind (dt_sub now (td_minutes 15)) (\<lambda>active_time.
          Inr (filter (\<lambda>l. sql_ge (sl_last_modified l) active_time) locs)))
   \<and> (box_given s w n e \<and> ts \<le> 0 \<and>
       (near_zero os \<or> near_zero ow \<or> near_zero on \<or> near_zero oe) \<longrightarrow>
      get_active now eq spawns pokemons s w n e os ow on oe ts eids ids v =
        get_active now eq spawns pokemons s w n e None None None None ts eids ids v
    \<and> get_weather to_double weathers s w n e os ow on oe ts =
        get_weather to_double weathers s w n e None None None None ts
    \<and> get_recent now locs s w n e os ow on oe ts =
        get_recent now locs s w n e None None None None ts)"
proof -
  have none: "\<not> box_given None None None None"
    by (simp add: box_given_def truthy_def)
  show ?thesis
    unfolding not_box_given_iff[symmetric]
    by (simp add: get_active_def get_weather_def get_recent_def Let_def none)
qed


theorem zero_coordinate_is_no_box_witness:
  "near_zero (Some 0) \<and>
   get_active now_1410 (\<lambda>_ _. False) [] sightings (Some 0) (Some 1) (Some 2) (Some 2)
      None None None None 0 None None False =
     Inr [plain (mk_pokemon 1 16 1.5 1.2 15 14), plain (mk_pokemon 2 19 1.5 1.8 15 13),
          plain (mk_pokemon 3 25 1.5 1.9 15 13), plain (mk_pokemon 4 16 5 5 15 13)] \<and>
   get_weather (\<lambda>x. x) [mk_weather ''47a1'' 9 9] (Some 0) (Some 1) (Some 2) (Some 2)
      None None None None 0 = Inr [mk_weather ''47a1'' 9 9]"
proof -
  have z: "near_zero (Some 0)" by (simp add: near_zero_def)
  then have h: "near_zero (Some 0) \<or> near_zero (Some 1) \<or> near_zero (Some 2) \<or> near_zero (Some 2)"
    by simp
  have rows: "kind_filter None None (select_columns False (\<lambda>_ _. False) [] sightings)
              = map plain sightings"
    by (simp add: kind_filter_def truthy_list_def select_columns_def plain_def)
  have live: "filter (\<lambda>r. dt_less now_1410 (disappear_time (ar_pokemon r))) (map plain sightings) =
     [plain (mk_pokemon 1 16 1.5 1.2 15 14), plain (mk_pokemon 2 19 1.5 1.8 15 13),
      plain (mk_pokemon 3 25 1.5 1.9 15 13), plain (mk_pokemon 4 16 5 5 15 13)]"
    by (simp add: sightings_def plain_def mk_pokemon_def time_defs)
  from zero_coordinate_is_no_box[of "Some 0" "Some 1" "Some 2" "Some 2" now_1410 "\<lambda>_ _. False" "[]"
      sightings None None None None 0 None None False "\<lambda>x. x" "[mk_weather ''47a1'' 9 9]",
      THEN conjunct1, rule_format, OF h]
  show ?thesis unfolding rows live using z by simp
qed

section \<open>Panning against full fetches\<close>

lemma outerjoin_pokemon:
  "r \<in> set (outerjoin_trsspawn eq spawns p) \<Longrightarrow> ar_pokemon r = p"
  by (cases "filter (\<lambda>t. eq (spawnpoint_id p) (spawnpoint t)) spawns")
     (auto simp: outerjoin_trsspawn_def)

lemma select_columns_pokemon:
  "r \<in> set (select_columns v eq spawns pokemons) \<Longrightarrow> ar_pokemon r \<in> set pokemons"
  by (auto simp: select_columns_def dest: outerjoin_pokemon split: if_splits)

lemma kind_filter_subset:
  "set (kind_filter eids ids q) \<subseteq> set q"
  by (auto simp: kind_filter_def)

lemma difference_by_id:
  assumes "\<And>x y. x \<in> set q \<Longrightarrow> y \<in> set q \<Longrightarrow> key x = key y \<Longrightarrow> old x = old y"
    and that: "\<And>r. keep r \<Longrightarrow> alive r"
  shows "key ` set (filter (\<lambda>r. keep r \<and> \<not> old r) q) =
         key ` set (filter keep q) - key ` set (filter (\<lambda>r. alive r \<and> old r) q)"
proof (intro set_eqI iffI)
  fix k
  assume "k \<in> key ` set (filter (\<lambda>r. keep r \<and> \<not> old r) q)"
  then obtain r where r: "r \<in> set q" "keep r" "\<not> old r" "k = key r" by auto
  have "k \<notin> key ` set (filter (\<lambda>r. alive r \<and> old r) q)"
  proof
    assume "k \<in> key ` set (filter (\<lambda>r. alive r \<and> old r) q)"
    then obtain r' where "r' \<in> set q" "old r'" "key r' = k" by auto
    with r assms(1)[of r' r] show False by simp
  qed
  with r show "k \<in> key ` set (filter keep q) - key ` set (filter (\<lambda>r. alive r \<and> old r) q)"
    by auto
next
  fix k
  assume k: "k \<in> key ` set (filter keep q) - key ` set (filter (\<lambda>r. alive r \<and> old r) q)"
  then obtain r where r: "r \<in> set q" "keep r" "k = key r" by auto
  with k that have "\<not> old r" by auto
  with r show "k \<in> key ` set (filter (\<lambda>r. keep r \<and> \<not> old r) q)" by auto
qed


lemma active_time_ok:
  assumes "dt_valid now" "2 \<le> dt_ordinal now"
  shows "\<exists>a. dt_sub now (td_minutes 15) = Inr a"
proof -
  have ok: "time_ok now" using assms(1) by (rule dt_valid_time_ok)
  have "dt_ordinal now \<le> 3652059" using assms(1) by (simp add: dt_valid_def MAXORDINAL_def)
  then have "dt_sub now (td_minutes 15) = Inr (dt_of_us (dt_to_us now - td_minutes 15))"
    using to_us_bounds[OF ok] assms(2) by (intro dt_sub_ok) (simp_all add: td_minutes_def)
  then show ?thesis ..
qed

text \<open>
  C1 as stated fails for boxes with a coordinate that is exactly 0. With the previous box
  (0.5, 0, 2, 1.5), whose west longitude is 0, the query for the box (1, 1, 2, 2) and that
  previous box takes the fallback branch and returns sighting 1, which lies inside the
  previous box; and the query for the previous box alone takes the no-box branch. The ids
  returned with both boxes, 1, 2 and 3, are not the difference of the two full fetches,
  which is empty.
\<close>

theorem differential_viewport_counterexample:
  "get_active now_1410 (\<lambda>_ _. False) [] sightings (Some 1) (Some 1) (Some 2) (Some 2)
      None None None None 0 None None False =
     Inr [plain (mk_pokemon 1 16 1.5 1.2 15 14), plain (mk_pokemon 2 19 1.5 1.8 15 13),
          plain (mk_pokemon 3 25 1.5 1.9 15 13)]
   \<and> get_active now_1410 (\<lambda>_ _. False) [] sightings (Some 0.5) (Some 0) (Some 2) (Some 1.5)
      None None None None 0 None None False =
     Inr [plain (mk_pokemon 1 16 1.5 1.2 15 14), plain (mk_pokemon 2 19 1.5 1.8 15 13),
          plain (mk_pokemon 3 25 1.5 1.9 15 13), plain (mk_pokemon 4 16 5 5 15 13)]
   \<and> get_active now_1410 (\<lambda>_ _. False) [] sightings (Some 1) (Some 1) (Some 2) (Some 2)
      (Some 0.5) (Some 0) (Some 2) (Some 1.5) 0 None None False =
     Inr [plain (mk_pokemon 1 16 1.5 1.2 15 14), plain (mk_pokemon 2 19 1.5 1.8 15 13),
          plain (mk_pokemon 3 25 1.5 1.9 15 13)]
   \<and> in_box (pk_latitude (mk_pokemon 1 16 1.5 1.2 15 14))
         (pk_longitude (mk_pokemon 1 16 1.5 1.2 15 14)) (Some 0.5) (Some 0) (Some 2) (Some 1.5)
   \<and> {1, 2, 3} \<noteq> {1, 2, 3} - {1, 2, 3, 4 :: nat}"
  by (simp add: query_defs sightings_def plain_def mk_pokemon_def time_defs)

text \<open>
  C1, amended. For a fixed dataset with unique ids, a fixed instant, no positive
  timestamp, and boxes \<open>B\<close> and \<open>B_prev\<close> none of whose coordinates is \<open>None\<close> or
  0: the ids of the panned query for \<open>B\<close> and \<open>B_prev\<close> are the ids of the fallback
  query for \<open>B\<close> minus the ids of the fallback query for \<open>B_prev\<close>, for sightings
  (by \<open>encounter_id\<close>) and for scan cells (by \<open>cellid\<close>).
\<close>

theorem differential_viewport:
  assumes "box_given s w n e" "box_given os ow on oe" "ts \<le> 0"
    and "distinct (map encounter_id pokemons)" "distinct (map cellid locs)"
    and "dt_valid now" "2 \<le> dt_ordinal now"
  shows "(\<exists>full old panned.
            get_active now eq spawns pokemons s w n e None None None None ts eids ids v = Inr full
          \<and> get_active now eq spawns pokemons os ow on oe None None None None ts eids ids v = Inr old
          \<and> get_active now eq spawns pokemons s w n e os ow on oe ts eids ids v = Inr panned
          \<and> (\<lambda>r. encounter_id (ar_pokemon r)) ` set panned =
              (\<lambda>r. encounter_id (ar_pokemon r)) ` set full
                - (\<lambda>r. encounter_id (ar_pokemon r)) ` set old)
       \<and> (\<exists>full old panned.
            get_recent now locs s w n e None None None None ts = Inr full
          \<and> get_recent now locs os ow on oe None None None None ts = Inr old
          \<and> get_recent now locs s w n e os ow on oe ts = Inr panned
          \<and> cellid ` set panned = cellid ` set full - cellid ` set old)"
proof -
  have none: "\<not> box_given None None None None"
    by (simp add: box_given_def truthy_def)
  have nts: "\<not> 0 < ts" using assms(3) by simp
  let ?q = "kind_filter eids ids (select_columns v eq spawns pokemons)"
  let ?key = "\<lambda>r. encounter_id (ar_pokemon r)"
  let ?live = "\<lambda>r. dt_less now (disappear_time (ar_pokemon r))"
  let ?inb = "\<lambda>r. in_box (pk_latitude (ar_pokemon r)) (pk_longitude (ar_pokemon r)) s w n e"
  let ?old = "\<lambda>r. in_box (pk_latitude (ar_pokemon r)) (pk_longitude (ar_pokemon r)) os ow on oe"
  have inj: "inj_on encounter_id (set pokemons)"
    using assms(4) by (simp add: distinct_map)
  have cong: "?old x = ?old y" if "x \<in> set ?q" "y \<in> set ?q" "?key x = ?key y" for x y
  proof -
    have "ar_pokemon x \<in> set pokemons" "ar_pokemon y \<in> set pokemons"
      using that(1,2) kind_filter_subset select_columns_pokemon by blast+
    with that(3) inj have "ar_pokemon x = ar_pokemon y" by (auto dest: inj_onD)
    then show ?thesis by simp
  qed
  have a: "?key ` set (filter (\<lambda>r. (?live r \<and> ?inb r) \<and> \<not> ?old r) ?q) =
           ?key ` set (filter (\<lambda>r. ?live r \<and> ?inb r) ?q)
             - ?key ` set (filter (\<lambda>r. ?live r \<and> ?old r) ?q)"
    using cong
    by (intro difference_by_id[where key = ?key and old = ?old and alive = ?live
          and keep = "\<lambda>r. ?live r \<and> ?inb r" and q = ?q]) blast+
  have f: "get_active now eq spawns pokemons s w n e None None None None ts eids ids v =
           Inr (filter (\<lambda>r. ?live r \<and> ?inb r) ?q)"
    using assms(1) nts none by (simp add: get_active_def Let_def)
  have o: "get_active now eq spawns pokemons os ow on oe None None None None ts eids ids v =
           Inr (filter (\<lambda>r. ?live r \<and> ?old r) ?q)"
    using assms(2) nts none by (simp add: get_active_def Let_def)
  have p: "get_active now eq spawns pokemons s w n e os ow on oe ts eids ids v =
           Inr (filter (\<lambda>r. (?live r \<and> ?inb r) \<and> \<not> ?old r) ?q)"
    using assms(1,2) nts by (simp add: get_active_def Let_def conj_assoc)
  have sight: "\<exists>full old panned.
            get_active now eq spawns pokemons s w n e None None None None ts eids ids v = Inr full
          \<and> get_active now eq spawns pokemons os ow on oe None None None None ts eids ids v = Inr old
          \<and> get_active now eq spawns pokemons s w n e os ow on oe ts eids ids v = Inr panned
          \<and> ?key ` set panned = ?key ` set full - ?key ` set old"
    using f o p a by blast
  obtain act where act: "dt_sub now (td_minutes 15) = Inr act"
    using active_time_ok[OF assms(6,7)] by blast
  let ?recent = "\<lambda>l. sql_ge (sl_last_modified l) act"
  let ?linb = "\<lambda>l. in_box (sl_latitude l) (sl_longitude l) s w n e"
  let ?lold = "\<lambda>l. in_box (sl_latitude l) (sl_longitude l) os ow on oe"
  have linj: "inj_on cellid (set locs)"
    using assms(5) by (simp add: distinct_map)
  have lcong: "?lold x = ?lold y" if "x \<in> set locs" "y \<in> set locs" "cellid x = cellid y" for x y
    using that linj by (auto dest: inj_onD)
  have b: "cellid ` set (filter (\<lambda>l. (?recent l \<and> ?linb l) \<and> \<not> ?lold l) locs) =
           cellid ` set (filter (\<lambda>l. ?recent l \<and> ?linb l) locs)
             - cellid ` set (filter (\<lambda>l. ?recent l \<and> ?lold l) locs)"
    using lcong
    by (intro difference_by_id[where key = cellid and old = ?lold and alive = ?recent
          and keep = "\<lambda>l. ?recent l \<and> ?linb l" and q = locs]) blast+
  have lf: "get_recent now locs s w n e None None None None ts =
           Inr (filter (\<lambda>l. ?recent l \<and> ?linb l) locs)"
    using assms(1) nts none act by (simp add: get_recent_def)
  have lo: "get_recent now locs os ow on oe None None None None ts =
           Inr (filter (\<lambda>l. ?recent l \<and> ?lold l) locs)"
    using assms(2) nts none act by (simp add: get_recent_def)
  have lp: "get_recent now locs s w n e os ow on oe ts =
           Inr (filter (\<lambda>l. (?recent l \<and> ?linb l) \<and> \<not> ?lold l) locs)"
    using assms(1,2) nts act by (simp add: get_recent_def conj_assoc)
  have cells: "\<exists>full old panned.
            get_recent now locs s w n e None None None None ts = Inr full
          \<and> get_recent now locs os ow on oe None None None None ts = Inr old
          \<and> get_recent now locs s w n e os ow on oe ts = Inr panned
          \<and> cellid ` set panned = cellid ` set full - cellid ` set old"
    using lf lo lp b by blast
  from sight cells show ?thesis by blast
qed


theorem differential_viewport_witness:
  "box_given (Some 1) (Some 1) (Some 2) (Some 2) \<and> box_given (Some 1) (Some 1) (Some 2) (Some 1.5) \<and>
   (0::int) \<le> 0 \<and> distinct (map encounter_id sightings) \<and> distinct (map cellid locations) \<and>
   dt_valid now_1410 \<and> 2 \<le> dt_ordinal now_1410 \<and>
   (\<exists>full old panned.
      get_active now_1410 (\<lambda>_ _. False) [] sightings (Some 1) (Some 1) (Some 2) (Some 2)
        None None None None 0 None None False = Inr full
    \<and> get_active now_1410 (\<lambda>_ _. False) [] sightings (Some 1) (Some 1) (Some 2) (Some 1.5)
        None None None None 0 None None False = Inr old
    \<and> get_active now_1410 (\<lambda>_ _. False) [] sightings (Some 1) (Some 1) (Some 2) (Some 2)
        (Some 1) (Some 1) (Some 2) (Some 1.5) 0 None None False = Inr panned
    \<and> (\<lambda>r. encounter_id (ar_pokemon r)) ` set panned =
        (\<lambda>r. encounter_id (ar_pokemon r)) ` set full
          - (\<lambda>r. encounter_id (ar_pokemon r)) ` set old)"
proof -
  have h: "box_given (Some 1) (Some 1) (Some 2) (Some 2)"
    "box_given (Some 1) (Some 1) (Some 2) (Some 1.5)" "(0::int) \<le> 0"
    "distinct (map encounter_id sightings)" "distinct (map cellid locations)"
    "dt_valid now_1410" "2 \<le> dt_ordinal now_1410"
    by (simp_all add: box_given_def truthy_def sightings_def mk_pokemon_def locations_def
        mk_location_def dt_valid_def MAXORDINAL_def now_1410_def)
  from differential_viewport[OF h, of "\<lambda>_ _. False" "[]" None None False, THEN conjunct1] h
  show ?thesis by simp
qed

section \<open>The 15-minute window of the scan-cell query\<close>

text \<open>
  C7 as stated fails: the window is not confined to the fallback mode. Without a box
  the cell last modified at 13:05 is dropped at 14:10, and the panned query drops it too
  although it lies in the new box and outside the previous one.
\<close>

theorem window_only_in_fallback_counterexample:
  "get_recent now_1410 locations None None None None None None None None 0 =
     Inr [mk_location 8 1.5 1.2 14]
   \<and> get_recent now_1410 locations (Some 1) (Some 1) (Some 2) (Some 2)
       (Some 1) (Some 1) (Some 2) (Some 1.5) 0 = Inr []
   \<and> in_box (sl_latitude (mk_location 7 1.5 1.8 13)) (sl_longitude (mk_location 7 1.5 1.8 13))
       (Some 1) (Some 1) (Some 2) (Some 2)
   \<and> \<not> in_box (sl_latitude (mk_location 7 1.5 1.8 13)) (sl_longitude (mk_location 7 1.5 1.8 13))
       (Some 1) (Some 1) (Some 2) (Some 1.5)"
  by (simp add: get_recent_def box_given_def truthy_def in_box_def sql_ge_def locations_def
      mk_location_def time_defs)

text \<open>
  C7, amended. The window \<open>last_modified >= now - 15 minutes\<close> is applied in the
  no-box, panned and fallback modes; the timestamp mode alone does not apply it and
  tests \<open>last_modified >= timestamp\<close> instead.
\<close>

theorem recent_window_modes:
  "get_recent now locs s w n e os ow on oe ts =
     ebind (dt_sub now (td_minutes 15)) (\<lambda>active_time.
       case select_mode (box_given s w n e) (box_given os ow on oe) (0 < ts) of
         NoBox \<Rightarrow> Inr (filter (\<lambda>l. sql_ge (sl_last_modified l) active_time) locs)
       | DeltaByTimestamp \<Rightarrow>
           ebind (utcfromtimestamp_ms ts) (\<lambda>since.
             Inr (filter (\<lambda>l. sql_ge (sl_last_modified l) since \<and>
                               in_box (sl_latitude l) (sl_longitude l) s w n e) locs))
       | Panned \<Rightarrow>
           Inr (filter (\<lambda>l. sql_ge (sl_last_modified l) active_time \<and>
                             in_box (sl_latitude l) (sl_longitude l) s w n e \<and>
                             \<not> in_box (sl_latitude l) (sl_longitude l) os ow on oe) locs)
       | Fallback \<Rightarrow>
           Inr (filter (\<lambda>l. sql_ge (sl_last_modified l) active_time \<and>
                             in_box (sl_latitude l) (sl_longitude l) s w n e) locs))"
  by (simp add: get_recent_def select_mode_def cong: if_cong)

text \<open>
  In the timestamp mode, with a timestamp of 12:00, the cell last modified at 13:05 is
  returned at 14:10, more than 15 minutes later.
\<close>

theorem recent_window_modes_witness:
  "get_recent now_1410 locations (Some 1) (Some 1) (Some 2) (Some 2) None None None None
     1577880000000 = Inr locations"
proof -
  have sel: "select_mode (box_given (Some 1) (Some 1) (Some 2) (Some 2))
               (box_given None None None None) (0 < (1577880000000::int)) = DeltaByTimestamp"
    by (simp add: select_mode_def box_given_def truthy_def)
  have act: "dt_sub now_1410 (td_minutes 15) = Inr (now_1410\<lparr>dt_hour := 13, dt_minute := 55\<rparr>)"
    by (simp add: time_defs)
  have since: "utcfromtimestamp_ms 1577880000000 = Inr (now_1410\<lparr>dt_hour := 12, dt_minute := 0\<rparr>)"
    by (simp add: utcfromtimestamp_ms_def epoch_def time_defs)
  have "filter (\<lambda>l. sql_ge (sl_last_modified l) (now_1410\<lparr>dt_hour := 12, dt_minute := 0\<rparr>) \<and>
                     in_box (sl_latitude l) (sl_longitude l) (Some 1) (Some 1) (Some 2) (Some 2))
          locations = locations"
    by (simp add: locations_def mk_location_def sql_ge_def in_box_def time_defs)
  then show ?thesis
    unfolding recent_window_modes[of now_1410 locations "Some 1" "Some 1" "Some 2" "Some 2"
        None None None None 1577880000000] sel act
    by (simp add: since)
qed


section \<open>Rounding to a double\<close>



















section \<open>Tolerance of the weather query\<close>









section \<open>Spawn points without a fragment\<close>

lemma entry_omits:
  assumes "calc_endminsec row = None" "minus_offset (last_non_scanned row) utc_offset = Inr lns"
  shows "\<exists>sp. spawnpoint_entry utc_offset today1 today2 row = Inr sp \<and> omits_derived row lns sp"
  using assms
  by (simp add: spawnpoint_entry_def asdict_def omits_derived_def Let_def)

lemma loop_emits:
  "spawnpoints_loop utc_offset today k rows = Inr sps \<Longrightarrow> row \<in> set rows \<Longrightarrow>
   \<exists>t1 t2 sp. spawnpoint_entry utc_offset t1 t2 row = Inr sp \<and> sp \<in> set sps"
proof (induction rows arbitrary: k sps)
  case Nil
  then show ?case by simp
next
  case (Cons r rows)
  from Cons.prems(1) obtain sp rest where
    sp: "spawnpoint_entry utc_offset (today k) (today (k + 1)) r = Inr sp"
    and rest: "spawnpoints_loop utc_offset today (if calc_endminsec r = None then k else k + 2) rows
               = Inr rest"
    and sps: "sps = sp # rest"
    by (auto simp: ebind_def split: sum.splits)
  show ?case
  proof (cases "row = r")
    case True
    with sp sps show ?thesis by auto
  next
    case False
    with Cons.prems(2) have "row \<in> set rows" by simp
    from Cons.IH[OF rest this] sps show ?thesis by auto
  qed
qed

lemma minus_offset_in_range:
  assumes "time_ok d" "2 \<le> dt_ordinal d" "dt_ordinal d \<le> MAXORDINAL - 1"
    and "\<bar>utc_offset\<bar> \<le> 86400000000"
  shows "minus_offset (Some d) utc_offset = Inr (Some (dt_of_us (dt_to_us d - utc_offset)))"
proof -
  have "dt_ordinal d \<le> 3652058" using assms(3) by (simp add: MAXORDINAL_def)
  then have "dt_sub d utc_offset = Inr (dt_of_us (dt_to_us d - utc_offset))"
    using to_us_bounds[OF assms(1)] assms(2,4) by (intro dt_sub_ok) linarith+
  then show ?thesis by (simp add: minus_offset_def)
qed

text \<open>
  C9 as stated fails in its last clause: the absence of the derived fields is not the
  only effect of a missing fragment. With a UTC offset of one hour, the row without a
  fragment keeps \<open>last_scanned\<close> at 14:10 and keeps the key \<open>end_time\<close>, while the
  same row with the fragment 05:30 has \<open>last_scanned\<close> shifted to 13:10.
\<close>

theorem missing_fragment_counterexample:
  "spawnpoint_entry 3600000000 now_1410 now_1410 (spawn_0530\<lparr>calc_endminsec := None\<rparr>) =
     Inr ((asdict spawn_0530)\<lparr> sp_last_scanned := Some now_1410, end_time := Some None \<rparr>)
   \<and> spawnpoint_entry 3600000000 now_1410 now_1410 spawn_0530 =
     Inr ((asdict spawn_0530)\<lparr> sp_last_scanned := Some (now_1410\<lparr>dt_hour := 13\<rparr>),
            end_time := None,
            despawn_time := Some (now_1410\<lparr>dt_hour := 14, dt_minute := 5, dt_second := 30\<rparr>),
            spawn_time := Some (now_1410\<lparr>dt_hour := 13, dt_minute := 35, dt_second := 30\<rparr>) \<rparr>)
   \<and> now_1410 \<noteq> now_1410\<lparr>dt_hour := 13\<rparr>"
proof -
  have m: "(5::nat) < 60" "(30::nat) < 60" by simp_all
  have cand: "dt_replace now_1410 5 30 0 = Inr (now_1410\<lparr>dt_minute := 5, dt_second := 30\<rparr>)"
    by (simp add: dt_replace_def now_1410_def)
  have local: "despawn_time_local now_1410 now_1410 ''05:30'' =
          Inr (now_1410\<lparr>dt_hour := 15, dt_minute := 5, dt_second := 30\<rparr>)"
    unfolding mmss_0530[symmetric]
    by (simp add: parse_mmss[OF m] cand) (simp add: time_defs)
  have 1: "spawnpoint_entry 3600000000 now_1410 now_1410 (spawn_0530\<lparr>calc_endminsec := None\<rparr>) =
     Inr ((asdict spawn_0530)\<lparr> sp_last_scanned := Some now_1410, end_time := Some None \<rparr>)"
    by (simp add: spawnpoint_entry_def asdict_def spawn_0530_def minus_offset_def)
  have 2: "spawnpoint_entry 3600000000 now_1410 now_1410 spawn_0530 =
     Inr ((asdict spawn_0530)\<lparr> sp_last_scanned := Some (now_1410\<lparr>dt_hour := 13\<rparr>),
            end_time := None,
            despawn_time := Some (now_1410\<lparr>dt_hour := 14, dt_minute := 5, dt_second := 30\<rparr>),
            spawn_time := Some (now_1410\<lparr>dt_hour := 13, dt_minute := 35, dt_second := 30\<rparr>) \<rparr>)"
    by (simp add: spawnpoint_entry_def asdict_def spawn_0530_def minus_offset_def local)
       (simp add: time_defs)
  have 3: "now_1410 \<noteq> now_1410\<lparr>dt_hour := 13\<rparr>"
    by (simp add: now_1410_def)
  from 1 2 3 show ?thesis by simp
qed

text \<open>
  C9, amended. A row whose fragment is absent raises nothing in the inference: the loop
  body returns a dictionary without \<open>despawn_time\<close> and \<open>spawn_time\<close>, with the
  key \<open>end_time\<close> kept as \<open>None\<close>, the stored position, id, class and first detection,
  and \<open>last_non_scanned\<close> shifted by the UTC offset. The one exception left is the
  \<open>OverflowError\<close> of that shift at the ends of the date range, which does not depend on
  the fragment. Whenever the loop returns, the dictionary of such a row is in the result.
  Nothing is stated about \<open>last_scanned\<close>.
\<close>

theorem missing_fragment:
  assumes "calc_endminsec row = None"
  shows "(minus_offset (last_non_scanned row) utc_offset = Inr lns \<longrightarrow>
            (\<exists>sp. spawnpoint_entry utc_offset today1 today2 row = Inr sp \<and>
                  omits_derived row lns sp))
       \<and> (last_non_scanned row = None \<longrightarrow>
            (\<exists>sp. spawnpoint_entry utc_offset today1 today2 row = Inr sp \<and>
                  omits_derived row None sp))
       \<and> (last_non_scanned row = Some d \<and> time_ok d \<and> 2 \<le> dt_ordinal d \<and>
          dt_ordinal d \<le> MAXORDINAL - 1 \<and> \<bar>utc_offset\<bar> \<le> 86400000000 \<longrightarrow>
            (\<exists>sp. spawnpoint_entry utc_offset today1 today2 row = Inr sp \<and>
                  omits_derived row (Some (dt_of_us (dt_to_us d - utc_offset))) sp))
       \<and> (row \<in> set rows \<and> spawnpoints_loop utc_offset today k rows = Inr sps \<longrightarrow>
            (\<exists>shifted sp. minus_offset (last_non_scanned row) utc_offset = Inr shifted \<and>
                  sp \<in> set sps \<and> omits_derived row shifted sp))"
proof -
  note e = entry_omits[OF assms]
  have a: "\<exists>sp. spawnpoint_entry utc_offset today1 today2 row = Inr sp \<and> omits_derived row lns sp"
    if "minus_offset (last_non_scanned row) utc_offset = Inr lns"
    using that by (rule e)
  have b: "\<exists>sp. spawnpoint_entry utc_offset today1 today2 row = Inr sp \<and> omits_derived row None sp"
    if "last_non_scanned row = None"
    using that by (intro e) (simp add: minus_offset_def)
  have c: "\<exists>sp. spawnpoint_entry utc_offset today1 today2 row = Inr sp \<and>
                omits_derived row (Some (dt_of_us (dt_to_us d - utc_offset))) sp"
    if "last_non_scanned row = Some d" "time_ok d" "2 \<le> dt_ordinal d"
       "dt_ordinal d \<le> MAXORDINAL - 1" "\<bar>utc_offset\<bar> \<le> 86400000000"
    using that(1) minus_offset_in_range[OF that(2-5)] by (intro e) simp
  have d: "\<exists>shifted sp. minus_offset (last_non_scanned row) utc_offset = Inr shifted \<and>
                 sp \<in> set sps \<and> omits_derived row shifted sp"
    if "row \<in> set rows" "spawnpoints_loop utc_offset today k rows = Inr sps"
  proof -
    from loop_emits[OF that(2,1)] obtain t1 t2 sp where
      sp: "spawnpoint_entry utc_offset t1 t2 row = Inr sp" "sp \<in> set sps" by blast
    have "\<exists>shifted. minus_offset (last_non_scanned row) utc_offset = Inr shifted"
    proof (cases "minus_offset (last_non_scanned row) utc_offset")
      case (Inl err)
      then have "spawnpoint_entry utc_offset t1 t2 row = Inl err"
        by (simp add: spawnpoint_entry_def Let_def asdict_def)
      with sp(1) show ?thesis by simp
    next
      case (Inr x)
      then show ?thesis by blast
    qed
    then obtain shifted where sh: "minus_offset (last_non_scanned row) utc_offset = Inr shifted"
      by blast
    from e[OF sh, of t1 t2] obtain sp' where
      sp': "spawnpoint_entry utc_offset t1 t2 row = Inr sp'" "omits_derived row shifted sp'"
      by blast
    from sp(1) sp'(1) have "sp' = sp" by simp
    with sp'(2) sp(2) sh show ?thesis by blast
  qed
  from a b c d show ?thesis by blast
qed

theorem missing_fragment_witness:
  "calc_endminsec (spawn_0530\<lparr>calc_endminsec := None\<rparr>) = None \<and>
   last_non_scanned (spawn_0530\<lparr>calc_endminsec := None\<rparr>) = None \<and>
   (\<exists>sp. spawnpoint_entry 3600000000 now_1410 now_1410 (spawn_0530\<lparr>calc_endminsec := None\<rparr>) = Inr sp
       \<and> omits_derived (spawn_0530\<lparr>calc_endminsec := None\<rparr>) None sp)"
proof -
  have h: "calc_endminsec (spawn_0530\<lparr>calc_endminsec := None\<rparr>) = None" by simp
  have g: "last_non_scanned (spawn_0530\<lparr>calc_endminsec := None\<rparr>) = None"
    by (simp add: spawn_0530_def)
  from missing_fragment[OF h, of 3600000000 _ now_1410 now_1410, THEN conjunct2, THEN conjunct1,
      rule_format, OF g] h g
  show ?thesis by simp
qed

section \<open>Suppression of expired sub-fields in the landmark query\<close>

lemma dt_less_asym: "dt_less a b \<Longrightarrow> \<not> dt_less b a"
  unfolding dt_less_def by (elim disjE conjE) auto

lemma outerjoin_trsquest_stop:
  "(p', q) \<in> set (outerjoin_trsquest guid_eq t quest_table p) \<Longrightarrow> p' = p"
  by (cases "filter (\<lambda>q. guid_eq (pokestop_id p) (GUID q) \<and> real_of_int (quest_timestamp q) \<ge> t)
              quest_table")
     (auto simp: outerjoin_trsquest_def)

lemma fold_entries:
  "foldl (\<lambda>m (p, q). m(key p \<mapsto> f p q)) m0 rows k = Some d \<Longrightarrow>
   m0 k = Some d \<or> (\<exists>(p, q) \<in> set rows. key p = k \<and> d = f p q)"
proof (induction rows arbitrary: m0)
  case Nil
  then show ?case by simp
next
  case (Cons r rows)
  obtain p q where r: "r = (p, q)" by (cases r)
  from Cons.prems have "foldl (\<lambda>m (p, q). m(key p \<mapsto> f p q)) (m0(key p \<mapsto> f p q)) rows k = Some d"
    by (simp only: r foldl_Cons prod.case)
  from Cons.IH[OF this] show ?case
    by (auto simp: r split: if_splits)
qed

lemma pokestop_entry_fields:
  "pokestop_id (pokestop_entry now invasions lures p q) = pokestop_id p"
  "(case incident_expiration p of
      None \<Rightarrow> incident_grunt_type (pokestop_entry now invasions lures p q) = incident_grunt_type p \<and>
              incident_expiration (pokestop_entry now invasions lures p q) = None
    | Some e \<Rightarrow>
        if dt_less e now \<or> \<not> invasions
        then incident_grunt_type (pokestop_entry now invasions lures p q) = None \<and>
             incident_expiration (pokestop_entry now invasions lures p q) = None
        else incident_grunt_type (pokestop_entry now invasions lures p q) = incident_grunt_type p \<and>
             incident_expiration (pokestop_entry now invasions lures p q) = Some e)"
  "(case lure_expiration p of
      None \<Rightarrow> active_fort_modifier (pokestop_entry now invasions lures p q) = active_fort_modifier p \<and>
              lure_expiration (pokestop_entry now invasions lures p q) = None
    | Some e \<Rightarrow>
        if dt_less e now \<or> \<not> lures
        then active_fort_modifier (pokestop_entry now invasions lures p q) = None \<and>
             lure_expiration (pokestop_entry now invasions lures p q) = None
        else active_fort_modifier (pokestop_entry now invasions lures p q) = active_fort_modifier p \<and>
             lure_expiration (pokestop_entry now invasions lures p q) = Some e)"
  by (auto simp: pokestop_entry_def Let_def pokestop.defs pokestop_dict.defs split: option.splits)


lemma get_pokestops_rows:
  assumes "get_pokestops ui ul now guid_eq tt quest_table pokestops s w n e os ow on oe ts
             eventless quests invasions lures = Inr result"
  shows "\<exists>rows. (\<forall>(p, q) \<in> set rows. p \<in> set pokestops) \<and>
           result = foldl (\<lambda>m (p, q). m(pokestop_id p \<mapsto> pokestop_entry now invasions lures p q))
                      Map.empty rows"
proof -
  define query0 where "query0 =
     (if quests then concat (map (outerjoin_trsquest guid_eq tt quest_table) pokestops)
      else map (\<lambda>p. (p, None)) pokestops)"
  have q0: "\<forall>(p, q) \<in> set query0. p \<in> set pokestops"
    by (auto simp: query0_def dest: outerjoin_trsquest_stop)
  define terms where "terms =
     (if quests then [\<lambda>(p :: pokestop, q :: trsquest option). q \<noteq> None] else []) @
     (if invasions then [\<lambda>(p, q). sql_gt (incident_expiration p) ui] else []) @
     (if lures then [\<lambda>(p, q). sql_gt (lure_expiration p) ul] else [])"
  define query where "query =
     (if \<not> eventless
      then (case terms of [] \<Rightarrow> query0 | _ \<Rightarrow> filter (\<lambda>r. list_ex (\<lambda>t. t r) terms) query0)
      else query0)"
  have sub: "set query \<subseteq> set query0"
    by (auto simp: query_def split: list.splits)
  define stage where "stage =
     (if \<not> box_given s w n e
      then Inr query
      else if ts > 0
      then ebind (utcfromtimestamp_ms ts) (\<lambda>since.
             Inr (filter (\<lambda>(p, q).
                    sql_gt (last_updated p) since \<and>
                    in_box (ps_latitude p) (ps_longitude p) s w n e) query))
      else if box_given os ow on oe
      then Inr (filter (\<lambda>(p, q).
                  in_box (ps_latitude p) (ps_longitude p) s w n e \<and>
                  \<not> in_box (ps_latitude p) (ps_longitude p) os ow on oe) query)
      else Inr (filter (\<lambda>(p, q).
                  in_box (ps_latitude p) (ps_longitude p) s w n e) query))"
  have st: "set rows \<subseteq> set query" if "stage = Inr rows" for rows
    using that unfolding stage_def by (auto simp: ebind_def split: if_splits sum.splits)
  have "ebind stage (\<lambda>result.
          Inr (foldl (\<lambda>m (p, q). m(pokestop_id p \<mapsto> pokestop_entry now invasions lures p q))
                 Map.empty result)) = Inr result"
    using assms
    unfolding get_pokestops_def Let_def query0_def[symmetric] terms_def[symmetric]
      query_def[symmetric] stage_def[symmetric] .
  then obtain rows where stage: "stage = Inr rows"
    and res: "result = foldl (\<lambda>m (p, q). m(pokestop_id p \<mapsto> pokestop_entry now invasions lures p q))
                      Map.empty rows"
    by (cases stage) auto
  note rows = st[OF stage]
  from rows sub q0 have "\<forall>(p, q) \<in> set rows. p \<in> set pokestops" by blast
  with res show ?thesis by blast
qed

lemma get_pokestops_single:
  "get_pokestops ui ul now guid_eq tt [] [p] None None None None None None None None 0
     True quests invasions lures =
   Inr [pokestop_id p \<mapsto> pokestop_entry now invasions lures p None]"
  by (simp add: get_pokestops_def outerjoin_trsquest_def box_given_def truthy_def)

text \<open>
  C5 as stated fails twice. At 14:10 the stop whose incident expires at 14:10 exactly
  (expiration at the evaluation instant) is emitted with its grunt type and expiration:
  only its lure, expired at 13:10, is suppressed. And with invasions switched off the stop
  that stores a grunt type without an expiration is emitted with the grunt type.
\<close>

theorem suppression_counterexample:
  "get_pokestops now_1410 now_1410 now_1410 (=) 0 [] [stop_at_boundary]
     None None None None None None None None 0 True True True True =
     Inr [''b1'' \<mapsto> pokestop.extend (stop_at_boundary\<lparr>active_fort_modifier := None,
                                                         lure_expiration := None\<rparr>)
                        (pokestop_dict.fields None)]
   \<and> incident_grunt_type stop_at_boundary = Some 4
   \<and> incident_expiration stop_at_boundary = Some now_1410
   \<and> dt_le now_1410 now_1410
   \<and> get_pokestops now_1410 now_1410 now_1410 (=) 0 [] [stop_without_expiration]
     None None None None None None None None 0 True True False True =
     Inr [''b2'' \<mapsto> pokestop.extend stop_without_expiration (pokestop_dict.fields None)]
   \<and> incident_grunt_type stop_without_expiration = Some 4"
proof -
  have 1: "pokestop_entry now_1410 True True stop_at_boundary None =
           pokestop.extend (stop_at_boundary\<lparr>active_fort_modifier := None,
                                             lure_expiration := None\<rparr>)
             (pokestop_dict.fields None)"
    by (simp add: pokestop_entry_def stop_at_boundary_def pokestop.defs pokestop_dict.defs
        dt_less_def now_1410_def)
  have 2: "pokestop_entry now_1410 False True stop_without_expiration None =
           pokestop.extend stop_without_expiration (pokestop_dict.fields None)"
    by (simp add: pokestop_entry_def stop_without_expiration_def pokestop.defs pokestop_dict.defs)
  have 3: "pokestop_id stop_at_boundary = ''b1''" "pokestop_id stop_without_expiration = ''b2''"
    "incident_grunt_type stop_at_boundary = Some 4"
    "incident_expiration stop_at_boundary = Some now_1410"
    "incident_grunt_type stop_without_expiration = Some 4"
    by (simp_all add: stop_at_boundary_def stop_without_expiration_def)
  show ?thesis
    unfolding get_pokestops_single 1 2 3 by (simp add: dt_le_def)
qed

text \<open>
  C5, amended. In every record the landmark query emits, in every sync mode and for every
  setting of the other switches, a sub-feature pair (grunt type and incident expiration,
  or fort modifier and lure expiration) is null whenever its stored expiration is present
  and either strictly before the evaluation instant or the caller has switched that
  sub-feature off. A pair whose expiration is strictly after the instant, with the
  sub-feature switched on, is emitted as stored, and so is the type of a pair stored
  without an expiration. Each pair depends on its own expiration and switch only.
\<close>

theorem projection_suppression:
  assumes "get_pokestops utcnow_invasions utcnow_lures now guid_eq today_timestamp quest_table
             pokestops s w n e os ow on oe ts eventless_stops quests invasions lures = Inr result"
    and "result k = Some d"
  shows "\<exists>p \<in> set pokestops. pokestop_id p = k \<and> pokestop_id d = k
       \<and> (\<forall>x. incident_expiration p = Some x \<and> (dt_less x now \<or> \<not> invasions) \<longrightarrow>
             incident_grunt_type d = None \<and> incident_expiration d = None)
       \<and> (\<forall>x. lure_expiration p = Some x \<and> (dt_less x now \<or> \<not> lures) \<longrightarrow>
             active_fort_modifier d = None \<and> lure_expiration d = None)
       \<and> (\<forall>x. incident_expiration p = Some x \<and> dt_less now x \<and> invasions \<longrightarrow>
             incident_grunt_type d = incident_grunt_type p \<and> incident_expiration d = Some x)
       \<and> (\<forall>x. lure_expiration p = Some x \<and> dt_less now x \<and> lures \<longrightarrow>
             active_fort_modifier d = active_fort_modifier p \<and> lure_expiration d = Some x)
       \<and> (incident_expiration p = None \<longrightarrow>
             incident_grunt_type d = incident_grunt_type p \<and> incident_expiration d = None)
       \<and> (lure_expiration p = None \<longrightarrow>
             active_fort_modifier d = active_fort_modifier p \<and> lure_expiration d = None)"
proof -
  from get_pokestops_rows[OF assms(1)] obtain rows where
    rows: "\<forall>(p, q) \<in> set rows. p \<in> set pokestops"
    and res: "result = foldl (\<lambda>m (p, q). m(pokestop_id p \<mapsto> pokestop_entry now invasions lures p q))
                      Map.empty rows"
    by blast
  from assms(2) fold_entries[of pokestop_id "pokestop_entry now invasions lures" Map.empty rows k d]
  obtain p q where pq: "(p, q) \<in> set rows" "pokestop_id p = k"
    "d = pokestop_entry now invasions lures p q"
    unfolding res by auto
  from rows pq(1) have mem: "p \<in> set pokestops" by auto
  note f = pokestop_entry_fields[of now invasions lures p q]
  have id: "pokestop_id d = k" using pq(2,3) f(1) by simp
  have inc: "(\<forall>x. incident_expiration p = Some x \<and> (dt_less x now \<or> \<not> invasions) \<longrightarrow>
             incident_grunt_type d = None \<and> incident_expiration d = None)
       \<and> (\<forall>x. incident_expiration p = Some x \<and> dt_less now x \<and> invasions \<longrightarrow>
             incident_grunt_type d = incident_grunt_type p \<and> incident_expiration d = Some x)
       \<and> (incident_expiration p = None \<longrightarrow>
             incident_grunt_type d = incident_grunt_type p \<and> incident_expiration d = None)"
    using f(2) unfolding pq(3)
    by (cases "incident_expiration p") (auto split: if_splits dest: dt_less_asym)
  have lure: "(\<forall>x. lure_expiration p = Some x \<and> (dt_less x now \<or> \<not> lures) \<longrightarrow>
             active_fort_modifier d = None \<and> lure_expiration d = None)
       \<and> (\<forall>x. lure_expiration p = Some x \<and> dt_less now x \<and> lures \<longrightarrow>
             active_fort_modifier d = active_fort_modifier p \<and> lure_expiration d = Some x)
       \<and> (lure_expiration p = None \<longrightarrow>
             active_fort_modifier d = active_fort_modifier p \<and> lure_expiration d = None)"
    using f(3) unfolding pq(3)
    by (cases "lure_expiration p") (auto split: if_splits dest: dt_less_asym)
  note i = inc[THEN conjunct1] inc[THEN conjunct2, THEN conjunct1]
    inc[THEN conjunct2, THEN conjunct2]
  note l = lure[THEN conjunct1] lure[THEN conjunct2, THEN conjunct1]
    lure[THEN conjunct2, THEN conjunct2]
  show ?thesis
    by (rule bexI[OF _ mem]) (intro conjI pq(2) id i l)
qed

theorem projection_suppression_witness:
  "get_pokestops now_1410 now_1410 now_1410 (=) 0 [] [stop_at_boundary]
     None None None None None None None None 0 True True True True =
     Inr [''b1'' \<mapsto> pokestop_entry now_1410 True True stop_at_boundary None]
   \<and> lure_expiration stop_at_boundary = Some (now_1410\<lparr>dt_hour := 13\<rparr>)
   \<and> dt_less (now_1410\<lparr>dt_hour := 13\<rparr>) now_1410
   \<and> active_fort_modifier (pokestop_entry now_1410 True True stop_at_boundary None) = None
   \<and> lure_expiration (pokestop_entry now_1410 True True stop_at_boundary None) = None"
proof -
  let ?d = "pokestop_entry now_1410 True True stop_at_boundary None"
  have id: "pokestop_id stop_at_boundary = ''b1''"
    by (simp add: stop_at_boundary_def)
  have run: "get_pokestops now_1410 now_1410 now_1410 (=) 0 [] [stop_at_boundary]
     None None None None None None None None 0 True True True True = Inr [''b1'' \<mapsto> ?d]"
    using get_pokestops_single[of now_1410 now_1410 now_1410 "(=)" 0 stop_at_boundary True True True]
    by (simp add: id)
  have look: "[''b1'' \<mapsto> ?d] ''b1'' = Some ?d" by simp
  have lure: "lure_expiration stop_at_boundary = Some (now_1410\<lparr>dt_hour := 13\<rparr>)"
    "dt_less (now_1410\<lparr>dt_hour := 13\<rparr>) now_1410"
    by (simp_all add: stop_at_boundary_def dt_less_def now_1410_def)
  from projection_suppression[OF run look] lure
  have "active_fort_modifier ?d = None \<and> lure_expiration ?d = None"
    by auto
  with run lure show ?thesis by simp
qed

end
